theory Spec2Isabelle
  imports Main "HOL-Library.Word"
begin

unbundle bit_operations_syntax

section \<open>Machine types and outcomes\<close>

type_synonym byte = "8 word"
type_synonym int32_t = "32 word"
type_synonym int64_t = "64 word"
type_synonym size_t = "64 word"

text \<open>
  The exceptions a run can end with: \<open>LogicError\<close> and \<open>RuntimeError\<close> are the two the
  source raises itself; \<open>std_length_error\<close> is what \<open>std::vector::resize\<close> and
  \<open>reserve\<close> throw for a size above \<open>max_size()\<close> (every negative count converted to
  \<open>size_t\<close>); \<open>std_bad_alloc\<close> is what a failed allocation throws (\<open>std::bad_alloc\<close>,
  or \<open>std::bad_array_new_length\<close>, which derives from it).
\<close>

datatype error = LogicError | RuntimeError | std_length_error | std_bad_alloc

text \<open>
  How a call ends: it returns, it throws, an \<open>assert\<close> fails (the process aborts), or it
  has undefined behaviour (a read or write outside an array, a null dereference, the use
  of an indeterminate value).
\<close>

datatype 'a outcome = Returns 'a | Throws error | AssertFailed | Undefined

text \<open>
  What the allocator grants is not decided by the program: it is a parameter of every
  function that allocates storage whose size is read from the file. \<open>grants_bytes n\<close>
  says whether \<open>operator new\<close> grants a block of \<open>n\<close> bytes, \<open>grants_capacity n\<close> whether
  the vector of the caller of \<open>GetSequencesForChunk\<close> can be brought to a capacity of \<open>n\<close>
  descriptions (it can when it has that capacity already). A block of \<open>2^63\<close> bytes or
  more is never granted: it is beyond the largest object. The requests that can fail
  are those for the two vectors and the name buffer of \<open>Initialize\<close>, the array of
  \<open>ReadOffsetsTable\<close>, the buffer of \<open>ReadChunk\<close> and the capacity of the vector of
  \<open>GetSequencesForChunk\<close>. All others are taken to be granted: objects of a fixed size
  (the first name buffer of 100 bytes among them), strings, the growth of a vector by
  \<open>push_back\<close>, and the vectors of \<open>OffsetsTable\<close> and \<open>GetChunkDescriptions\<close>, which take
  no more bytes than the table of records that is in memory by then.
\<close>

record allocator =
  grants_bytes :: "nat \<Rightarrow> bool"
  grants_capacity :: "nat \<Rightarrow> bool"

definition grants :: "allocator \<Rightarrow> nat \<Rightarrow> bool" where
  "grants mem n = (n < 2 ^ 63 \<and> grants_bytes mem n)"

section \<open>The offsets table (BinaryChunkDeserializer.h)\<close>

record DiskOffsetsTable =
  offset :: int64_t
  numSequences :: int32_t
  numSamples :: int32_t

text \<open>
  \<open>m_diskOffsetsTable\<close> is a pointer to a heap array; the list is the array, its
  length the allocated size. \<open>m_startIndex\<close> is the \<open>vector<size_t>\<close>.
\<close>

record OffsetsTable =
  m_numBatches :: int64_t
  m_diskOffsetsTable :: "DiskOffsetsTable list"
  m_startIndex :: "size_t list"

text \<open>A signed counter below a signed bound does not overflow when it is incremented.\<close>

lemma sint_succ_less: "(c :: int64_t) <s n \<Longrightarrow> sint (c + 1) = sint c + 1"
proof -
  assume a: "c <s n"
  have "sint n < 2 ^ 63" using sint_lt [of n] by simp
  moreover have "- (2 ^ 63) \<le> sint c" using sint_ge [of c] by simp
  moreover have "sint c < sint n" using a by (simp add: word_sless_alt)
  ultimately have "- (2 ^ 63) \<le> sint c + 1 \<and> sint c + 1 < 2 ^ 63" by simp
  then show ?thesis
    by (simp add: sint_word_ariths signed_take_bit_int_eq_self)
qed

lemma sint_succ_less32: "(c :: int32_t) <s n \<Longrightarrow> sint (c + 1) = sint c + 1"
proof -
  assume a: "c <s n"
  have "sint n < 2 ^ 31" using sint_lt [of n] by simp
  moreover have "- (2 ^ 31) \<le> sint c" using sint_ge [of c] by simp
  moreover have "sint c < sint n" using a by (simp add: word_sless_alt)
  ultimately have "- (2 ^ 31) \<le> sint c + 1 \<and> sint c + 1 < 2 ^ 31" by simp
  then show ?thesis
    by (simp add: sint_word_ariths signed_take_bit_int_eq_self)
qed

text \<open>
  The loop of \<open>OffsetsTable::Initialize\<close>: \<open>c\<close> is an \<open>int64_t\<close> compared signed with
  \<open>m_numBatches\<close>; \<open>sequencesSeen\<close> is a \<open>size_t\<close> to which the \<open>int32_t\<close> count is
  added after sign extension. \<open>None\<close> is an access outside the array.
\<close>

function Initialize_loop ::
  "DiskOffsetsTable list \<Rightarrow> int64_t \<Rightarrow> int64_t \<Rightarrow> size_t \<Rightarrow> size_t list \<Rightarrow> size_t list option" where
  "Initialize_loop tbl n c sequencesSeen startIndex =
     (if c <s n then
        (if unat c < length startIndex \<and> unat c < length tbl then
           Initialize_loop tbl n (c + 1)
             (sequencesSeen + scast (numSequences (tbl ! unat c)))
             (startIndex[unat c := sequencesSeen])
         else None)
      else Some startIndex)"
  by pat_completeness auto

termination
proof (relation "measure (\<lambda>(tbl, n, c, seen, si). nat (sint n - sint c))")
  show "wf (measure (\<lambda>(tbl, n, c, seen, si). nat (sint n - sint c)))" by simp
next
  fix tbl :: "DiskOffsetsTable list" and n c sequencesSeen :: int64_t and startIndex :: "size_t list"
  assume a: "c <s n"
  have "sint c < sint n" using a by (simp add: word_sless_alt)
  then show "((tbl, n, c + 1, sequencesSeen + scast (numSequences (tbl ! unat c)),
               startIndex[unat c := sequencesSeen]),
              (tbl, n, c, sequencesSeen, startIndex))
             \<in> measure (\<lambda>(tbl, n, c, seen, si). nat (sint n - sint c))"
    using sint_succ_less [OF a] by simp
qed

declare Initialize_loop.simps [simp del]

text \<open>
  The constructor: \<open>m_startIndex.resize(m_numBatches)\<close> converts the \<open>int64_t\<close> to
  \<open>size_t\<close>, so a negative count asks for more than \<open>max_size()\<close> elements and throws;
  otherwise the vector is zero-filled and the loop starts at \<open>c = 1\<close>.
\<close>

definition OffsetsTable_new :: "size_t \<Rightarrow> DiskOffsetsTable list \<Rightarrow> OffsetsTable outcome" where
  "OffsetsTable_new numBatches offsetsTable =
     (if (numBatches :: int64_t) <s 0 then Throws std_length_error
      else case Initialize_loop offsetsTable numBatches 1 0 (replicate (unat numBatches) 0) of
             None \<Rightarrow> Undefined
           | Some si \<Rightarrow> Returns \<lparr>m_numBatches = numBatches, m_diskOffsetsTable = offsetsTable,
                                 m_startIndex = si\<rparr>)"

text \<open>The accessors index without a check; \<open>None\<close> is an index outside the array.\<close>

definition GetOffset :: "OffsetsTable \<Rightarrow> size_t \<Rightarrow> int64_t option" where
  "GetOffset t index =
     (if unat index < length (m_diskOffsetsTable t)
      then Some (offset (m_diskOffsetsTable t ! unat index)) else None)"

definition GetNumSequences :: "OffsetsTable \<Rightarrow> size_t \<Rightarrow> int32_t option" where
  "GetNumSequences t index =
     (if unat index < length (m_diskOffsetsTable t)
      then Some (numSequences (m_diskOffsetsTable t ! unat index)) else None)"

definition GetNumSamples :: "OffsetsTable \<Rightarrow> size_t \<Rightarrow> int32_t option" where
  "GetNumSamples t index =
     (if unat index < length (m_diskOffsetsTable t)
      then Some (numSamples (m_diskOffsetsTable t ! unat index)) else None)"

definition GetStartIndex :: "OffsetsTable \<Rightarrow> size_t \<Rightarrow> int64_t option" where
  "GetStartIndex t index =
     (if unat index < length (m_startIndex t) then Some (m_startIndex t ! unat index) else None)"

text \<open>\<open>index + 1\<close> is \<open>size_t\<close> arithmetic; the difference of the two offsets is converted to \<open>size_t\<close>.\<close>

definition GetChunkSize :: "OffsetsTable \<Rightarrow> size_t \<Rightarrow> size_t option" where
  "GetChunkSize t index =
     (if unat (index + 1) < length (m_diskOffsetsTable t) \<and> unat index < length (m_diskOffsetsTable t)
      then Some (offset (m_diskOffsetsTable t ! unat (index + 1)) - offset (m_diskOffsetsTable t ! unat index))
      else None)"


section \<open>The file handle\<close>

text \<open>
  A \<open>FILE\<close> is the bytes on disk and the position of the handle. \<open>_fseeki64\<close> to a
  negative position fails and leaves the position where it was (the source ignores the
  result); \<open>fread\<close> delivers the bytes there are, up to the number asked for, and moves
  the position past them.
\<close>

record FILE =
  content :: "byte list"
  pos :: nat

definition fseek_set :: "FILE \<Rightarrow> int64_t \<Rightarrow> FILE" where
  "fseek_set f p = (if p <s 0 then f else f\<lparr>pos := unat p\<rparr>)"

definition fseek_end :: "FILE \<Rightarrow> FILE" where
  "fseek_end f = f\<lparr>pos := length (content f)\<rparr>"

definition ftell :: "FILE \<Rightarrow> int64_t" where
  "ftell f = of_nat (pos f)"

definition fread :: "FILE \<Rightarrow> nat \<Rightarrow> byte list \<times> FILE" where
  "fread f n = (let bs = take n (drop (pos f) (content f)) in (bs, f\<lparr>pos := pos f + length bs\<rparr>))"

text \<open>Scalars are stored little-endian (the reader copies the bytes into the variable).\<close>

fun le_nat :: "byte list \<Rightarrow> nat" where
  "le_nat [] = 0"
| "le_nat (b # bs) = unat b + 256 * le_nat bs"

definition le_word :: "byte list \<Rightarrow> 'a::len word" where
  "le_word bs = of_nat (le_nat bs)"

text \<open>One packed 16-byte \<open>DiskOffsetsTable\<close> record, and the complete records of a read.\<close>

definition parse_record :: "byte list \<Rightarrow> DiskOffsetsTable" where
  "parse_record bs =
     \<lparr>offset = le_word (take 8 bs), numSequences = le_word (take 4 (drop 8 bs)),
      numSamples = le_word (take 4 (drop 12 bs))\<rparr>"

definition parse_records :: "byte list \<Rightarrow> DiskOffsetsTable list" where
  "parse_records bs = map (\<lambda>k. parse_record (take 16 (drop (16 * k) bs))) [0..<length bs div 16]"

section \<open>Streams and codecs\<close>

text \<open>
  The stream codecs (the classes \<open>BinaryDataDeserialzer\<close>, \<open>DenseBinaryDataDeserializer\<close>
  and \<open>SparseBinaryDataDeserializer\<close>, in the sources at the end of
  \<open>TrainingCriterionNodes.h\<close>). The members of the base class are \<open>m_matType\<close>,
  \<open>m_elemType\<close> and \<open>m_numCols\<close>; the two subclasses are the two constructors of the
  datatype, each with the element type and the column count, and \<open>m_matType\<close> is fixed
  by the subclass. The enumerators are those the code names.
\<close>

datatype ElementType = tfloat | tdouble

datatype StorageType = dense | sparse_csc

datatype BinaryDataDeserialzer =
    DenseBinaryDataDeserializer (m_elemType: ElementType) (m_numCols: size_t)
  | SparseBinaryDataDeserializer (m_elemType: ElementType) (m_numCols: size_t)

fun GetStorageType :: "BinaryDataDeserialzer \<Rightarrow> StorageType" where
  "GetStorageType (DenseBinaryDataDeserializer e n) = dense"
| "GetStorageType (SparseBinaryDataDeserializer e n) = sparse_csc"

definition GetElementType :: "BinaryDataDeserialzer \<Rightarrow> ElementType" where
  "GetElementType d = m_elemType d"

text \<open>\<open>GetSampleLayout\<close> makes a \<open>TensorShape\<close> of \<open>m_numCols\<close>; the shape is kept as that number.\<close>

definition GetSampleLayout :: "BinaryDataDeserialzer \<Rightarrow> size_t" where
  "GetSampleLayout d = m_numCols d"

text \<open>
  Modelled from the spec: a stream description (its declaration is in
  \<open>DataDeserializer.h\<close>, not part of the sources), with the five fields \<open>Initialize\<close>
  assigns. Stream names are kept as the bytes read from the header.
\<close>

record StreamDescription =
  m_name :: "byte list"
  m_id :: int32_t
  m_elementType :: ElementType
  m_storageType :: StorageType
  m_sampleLayout :: size_t

section \<open>The deserializer (BinaryChunkDeserializer)\<close>

text \<open>
  The members of the class. \<open>m_file\<close> is \<open>None\<close> for the null pointer, \<open>m_offsetsTable\<close>
  is \<open>None\<close> for the empty \<open>unique_ptr\<close>. \<open>m_numBatches\<close> and \<open>m_numInputs\<close> have no
  initialiser: they are \<open>None\<close> until \<open>Initialize\<close> reads them. \<open>m_streams\<close> (a member of
  the base class) and \<open>m_deserializers\<close> are vectors of pointers, null after \<open>resize\<close>.
  The table's own field is written \<open>OffsetsTable.m_numBatches\<close> from here on.
  \<open>m_chunkBuffer\<close>, which no function reads or writes, is left out.
\<close>

record BinaryChunkDeserializer =
  m_streams :: "StreamDescription option list"
  m_filename :: string
  m_file :: "FILE option"
  m_offsetStart :: int64_t
  m_dataStart :: int64_t
  m_deserializers :: "BinaryDataDeserialzer option list"
  m_offsetsTable :: "OffsetsTable option"
  m_versionNumber :: int64_t
  m_numBatches :: "int64_t option"
  m_numInputs :: "int32_t option"
  m_traceLevel :: "32 word"

text \<open>A member function: from the object's state to how the call ends and the state then.\<close>

type_synonym 'a prog = "BinaryChunkDeserializer \<Rightarrow> 'a outcome \<times> BinaryChunkDeserializer"

definition ret :: "'a \<Rightarrow> 'a prog" where
  "ret x s = (Returns x, s)"

definition throw :: "error \<Rightarrow> 'a prog" where
  "throw e s = (Throws e, s)"

definition abort :: "'a prog" where
  "abort s = (AssertFailed, s)"

definition undef :: "'a prog" where
  "undef s = (Undefined, s)"

definition andThen :: "'a prog \<Rightarrow> ('a \<Rightarrow> 'b prog) \<Rightarrow> 'b prog" where
  "andThen m f s =
     (case m s of
        (Returns x, s') \<Rightarrow> f x s'
      | (Throws e, s') \<Rightarrow> (Throws e, s')
      | (AssertFailed, s') \<Rightarrow> (AssertFailed, s')
      | (Undefined, s') \<Rightarrow> (Undefined, s'))"

definition get_this :: "BinaryChunkDeserializer prog" where
  "get_this s = (Returns s, s)"

definition modify :: "(BinaryChunkDeserializer \<Rightarrow> BinaryChunkDeserializer) \<Rightarrow> unit prog" where
  "modify g s = (Returns (), g s)"

text \<open>An operation on \<open>m_file\<close>; on the null pointer it is undefined.\<close>

definition file_op :: "(FILE \<Rightarrow> 'a \<times> FILE) \<Rightarrow> 'a prog" where
  "file_op g s =
     (case m_file s of
        None \<Rightarrow> (Undefined, s)
      | Some f \<Rightarrow> (case g f of (x, f') \<Rightarrow> (Returns x, s\<lparr>m_file := Some f'\<rparr>)))"

text \<open>
  \<open>fread(&x, sizeof(x), 1, m_file)\<close> into a scalar: when the file ends before the last
  byte, \<open>x\<close> keeps an indeterminate value, and the code goes on to use it.
\<close>

definition fread_scalar :: "nat \<Rightarrow> 'a::len word prog" where
  "fread_scalar n =
     andThen (file_op (\<lambda>f. fread f n)) (\<lambda>bs. if length bs = n then ret (le_word bs) else undef)"

text \<open>
  A request to \<open>operator new\<close> for \<open>n\<close> bytes: it throws when the allocator does not
  grant them.
\<close>

definition allocate :: "allocator \<Rightarrow> nat \<Rightarrow> unit prog" where
  "allocate mem n = (if grants mem n then ret () else throw std_bad_alloc)"

text \<open>
  The codec constructors read the rest of a stream header from the file they are given,
  which is \<open>m_file\<close>. Both read the element type (an \<open>int32_t\<close>: 0 is float, 1 is double,
  anything else a \<open>RuntimeError\<close>) and then the number of columns (an \<open>int32_t\<close> stored in
  the \<open>size_t\<close> member); the sparse one reads the storage type first, which must be 0.
\<close>

definition read_elemType :: "ElementType prog" where
  "read_elemType =
     andThen (fread_scalar 4) (\<lambda>elemType :: int32_t.
       if elemType = 0 then ret tfloat else if elemType = 1 then ret tdouble else throw RuntimeError)"

definition DenseBinaryDataDeserializer_new :: "BinaryDataDeserialzer prog" where
  "DenseBinaryDataDeserializer_new =
     andThen read_elemType (\<lambda>e.
     andThen (fread_scalar 4) (\<lambda>numCols :: int32_t.
     ret (DenseBinaryDataDeserializer e (scast numCols))))"

definition SparseBinaryDataDeserializer_new :: "BinaryDataDeserialzer prog" where
  "SparseBinaryDataDeserializer_new =
     andThen (fread_scalar 4) (\<lambda>storageType :: int32_t.
       if storageType \<noteq> 0 then throw RuntimeError
       else andThen read_elemType (\<lambda>e.
            andThen (fread_scalar 4) (\<lambda>numCols :: int32_t.
            ret (SparseBinaryDataDeserializer e (scast numCols)))))"

text \<open>
  \<open>std::vector::resize\<close>: keeps what fits, pads with the default value. The two vectors
  of the object hold shared pointers, of 16 bytes each; a vector that has to grow (its
  capacity is taken to be its size) asks the allocator for its new storage.
\<close>

definition resize :: "'a list \<Rightarrow> nat \<Rightarrow> 'a \<Rightarrow> 'a list" where
  "resize xs n d = take n xs @ replicate (n - length xs) d"

definition resize_m_streams :: "allocator \<Rightarrow> nat \<Rightarrow> unit prog" where
  "resize_m_streams mem n =
     andThen get_this (\<lambda>s.
     andThen (if n \<le> length (m_streams s) then ret () else allocate mem (16 * n)) (\<lambda>_.
     modify (\<lambda>s. s\<lparr>m_streams := resize (m_streams s) n None\<rparr>)))"

definition resize_m_deserializers :: "allocator \<Rightarrow> nat \<Rightarrow> unit prog" where
  "resize_m_deserializers mem n =
     andThen get_this (\<lambda>s.
     andThen (if n \<le> length (m_deserializers s) then ret () else allocate mem (16 * n)) (\<lambda>_.
     modify (\<lambda>s. s\<lparr>m_deserializers := resize (m_deserializers s) n None\<rparr>)))"

text \<open>
  The body of the loop over the inputs in \<open>Initialize\<close>, for input \<open>c\<close>; \<open>maxLen\<close> is the
  size of the name buffer, and the body returns its size afterwards: a name of
  \<open>maxLen\<close> bytes or more gets a new buffer of \<open>len + 1\<close> bytes. A negative \<open>len\<close> makes
  \<open>fread\<close> and \<open>tempName[len]\<close> leave the buffer, \<open>len + 1\<close> overflows for the largest
  \<open>len\<close>, and a name cut short by the end of the file leaves indeterminate bytes in the
  buffer: all are undefined. \<open>utf16(tempName)\<close> reads up to the first NUL; the wide
  string is kept as those bytes, and \<open>rename\<close> maps such names.
\<close>

definition read_stream ::
  "allocator \<Rightarrow> (byte list \<rightharpoonup> byte list) \<Rightarrow> int32_t \<Rightarrow> int32_t \<Rightarrow> int32_t prog" where
  "read_stream mem rename c maxLen =
     andThen (fread_scalar 4) (\<lambda>len :: int32_t.
       if len <s 0 \<or> len + 1 <s len then undef
       else
     andThen (if maxLen <s len + 1 then andThen (allocate mem (unat (len + 1))) (\<lambda>_. ret (len + 1))
              else ret maxLen) (\<lambda>maxLen'.
     andThen (file_op (\<lambda>f. fread f (unat len))) (\<lambda>tempName.
       if length tempName < unat len then undef
       else
     andThen (fread_scalar 4) (\<lambda>matType :: int32_t.
     andThen (if matType = 0 then DenseBinaryDataDeserializer_new
              else if matType = 1 then SparseBinaryDataDeserializer_new
              else throw RuntimeError) (\<lambda>d.
     andThen (modify (\<lambda>s.
       let wname = takeWhile (\<lambda>b. b \<noteq> 0) tempName;
           streamDescription =
             \<lparr>m_name = (case rename wname of None \<Rightarrow> wname | Some r \<Rightarrow> r),
              m_id = c,
              m_elementType = GetElementType d,
              m_storageType = GetStorageType d,
              m_sampleLayout = GetSampleLayout d\<rparr>
       in s\<lparr>m_deserializers := (m_deserializers s)[unat c := Some d],
            m_streams := (m_streams s)[unat c := Some streamDescription]\<rparr>)) (\<lambda>_.
     ret maxLen'))))))"

function read_streams ::
  "allocator \<Rightarrow> (byte list \<rightharpoonup> byte list) \<Rightarrow> int32_t \<Rightarrow> int32_t \<Rightarrow> int32_t \<Rightarrow> unit prog" where
  "read_streams mem rename n c maxLen s =
     (if c <s n then
        (case read_stream mem rename c maxLen s of
           (Returns maxLen', s') \<Rightarrow> read_streams mem rename n (c + 1) maxLen' s'
         | (Throws e, s') \<Rightarrow> (Throws e, s')
         | (AssertFailed, s') \<Rightarrow> (AssertFailed, s')
         | (Undefined, s') \<Rightarrow> (Undefined, s'))
      else (Returns (), s))"
  by pat_completeness auto
termination
proof (relation "measure (\<lambda>(mem, rename, n, c, maxLen, s). nat (sint n - sint c))")
  show "wf (measure (\<lambda>(mem, rename, n, c, maxLen, s). nat (sint n - sint c)))" by simp
next
  fix mem :: allocator and rename :: "byte list \<rightharpoonup> byte list" and n c maxLen maxLen' :: int32_t
    and s s' :: BinaryChunkDeserializer
  assume a: "c <s n"
  have "sint c < sint n" using a by (simp add: word_sless_alt)
  then show "((mem, rename, n, c + 1, maxLen', s'), (mem, rename, n, c, maxLen, s))
             \<in> measure (\<lambda>(mem, rename, n, c, maxLen, s). nat (sint n - sint c))"
    using sint_succ_less32 [OF a] by simp
qed

declare read_streams.simps [simp del]

text \<open>
  \<open>ReadOffsetsTable(infile, startOffset, numBatches)\<close>; \<open>infile\<close> is \<open>m_file\<close> in the
  only call. \<open>ndebug\<close> says whether \<open>assert\<close> is compiled out. The array has
  \<open>numBatches + 1\<close> elements (in \<open>size_t\<close> arithmetic) of 16 bytes, and \<open>new\<close> throws
  when they are not granted. \<open>fread\<close> moves the position
  by the bytes it delivers and fills the complete records among them; records the file
  does not hold stay indeterminate in the new array, and writing beyond the array is out
  of bounds: both are undefined.
\<close>

definition ReadOffsetsTable :: "allocator \<Rightarrow> bool \<Rightarrow> size_t \<Rightarrow> size_t \<Rightarrow> unit prog" where
  "ReadOffsetsTable mem ndebug startOffset numBatches =
     andThen get_this (\<lambda>s.
     case m_numBatches s of
       None \<Rightarrow> undef
     | Some N \<Rightarrow>
         if \<not> ndebug \<and> \<not> (startOffset + numBatches \<le>s N) then abort
         else
     andThen (file_op (\<lambda>f. ((), fseek_set f (startOffset * 16 + m_offsetStart s)))) (\<lambda>_.
     andThen (allocate mem (16 * unat (numBatches + 1))) (\<lambda>_.
     andThen (file_op (\<lambda>f. fread f (16 * unat numBatches))) (\<lambda>bs.
       let offsetsTable = parse_records bs in
       if length offsetsTable < unat numBatches \<or> unat (numBatches + 1) \<le> unat numBatches
       then undef
       else
     andThen
       (if startOffset + numBatches = N then
          andThen (file_op (\<lambda>f. ((), fseek_end f))) (\<lambda>_.
          andThen (file_op (\<lambda>f. (ftell f, f))) (\<lambda>e.
          ret \<lparr>offset = e, numSequences = 0, numSamples = 0\<rparr>))
        else
          andThen (file_op (\<lambda>f. fread f 16)) (\<lambda>bs'.
            if length bs' = 16 then ret (parse_record bs') else undef)) (\<lambda>final.
       case OffsetsTable_new numBatches (offsetsTable @ [final]) of
         Returns t \<Rightarrow> modify (\<lambda>s. s\<lparr>m_offsetsTable := Some t\<rparr>)
       | Throws e \<Rightarrow> throw e
       | AssertFailed \<Rightarrow> abort
       | Undefined \<Rightarrow> undef)))))"

text \<open>
  \<open>Initialize(rename)\<close>. \<open>fopenOrDie\<close> is taken to succeed: \<open>disk\<close> is the content of
  the file named \<open>m_filename\<close>, opened at position 0. The name buffer starts with 100
  bytes. The one-argument \<open>ReadOffsetsTable(m_file)\<close> is the call with \<open>0\<close> and
  \<open>m_numBatches\<close>.
\<close>

definition Initialize ::
  "allocator \<Rightarrow> bool \<Rightarrow> (byte list \<rightharpoonup> byte list) \<Rightarrow> byte list \<Rightarrow> unit prog" where
  "Initialize mem ndebug rename disk =
     andThen (modify (\<lambda>s. s\<lparr>m_file := Some \<lparr>content = disk, pos = 0\<rparr>\<rparr>)) (\<lambda>_.
     andThen (file_op (\<lambda>f. ((), fseek_set f 0))) (\<lambda>_.
     andThen (fread_scalar 8) (\<lambda>versionNumber :: int64_t.
     andThen get_this (\<lambda>s.
       if versionNumber \<noteq> m_versionNumber s then throw LogicError
       else
     andThen (fread_scalar 8) (\<lambda>numBatches :: int64_t.
     andThen (modify (\<lambda>s. s\<lparr>m_numBatches := Some numBatches\<rparr>)) (\<lambda>_.
     andThen (fread_scalar 4) (\<lambda>numInputs :: int32_t.
     andThen (modify (\<lambda>s. s\<lparr>m_numInputs := Some numInputs\<rparr>)) (\<lambda>_.
       if numInputs <s 0 then throw std_length_error
       else
     andThen (resize_m_streams mem (unat numInputs)) (\<lambda>_.
     andThen (resize_m_deserializers mem (unat numInputs)) (\<lambda>_.
     andThen (read_streams mem rename numInputs 0 100) (\<lambda>_.
     andThen (file_op (\<lambda>f. (ftell f, f))) (\<lambda>p.
     andThen (modify (\<lambda>s. s\<lparr>m_offsetStart := p, m_dataStart := p + numBatches * 16\<rparr>)) (\<lambda>_.
     ReadOffsetsTable mem ndebug 0 numBatches)))))))))))))"

text \<open>
  The constructors. The private one sets the members of its initialiser list;
  \<open>m_versionNumber\<close> has the default member initialiser 1. The public one takes what
  it reads from the \<open>BinaryConfigHelper\<close>: the file path, the trace level and the rename map.
\<close>

definition BinaryChunkDeserializer_filename :: "string \<Rightarrow> BinaryChunkDeserializer" where
  "BinaryChunkDeserializer_filename filename =
     \<lparr>m_streams = [], m_filename = filename, m_file = None, m_offsetStart = 0, m_dataStart = 0,
      m_deserializers = [], m_offsetsTable = None, m_versionNumber = 1,
      m_numBatches = None, m_numInputs = None, m_traceLevel = 0\<rparr>"

definition SetTraceLevel :: "32 word \<Rightarrow> unit prog" where
  "SetTraceLevel traceLevel = modify (\<lambda>s. s\<lparr>m_traceLevel := traceLevel\<rparr>)"

definition BinaryChunkDeserializer_helper ::
  "allocator \<Rightarrow> bool \<Rightarrow> string \<Rightarrow> 32 word \<Rightarrow> (byte list \<rightharpoonup> byte list) \<Rightarrow> byte list
   \<Rightarrow> unit outcome \<times> BinaryChunkDeserializer" where
  "BinaryChunkDeserializer_helper mem ndebug filename traceLevel rename disk =
     andThen (SetTraceLevel traceLevel) (\<lambda>_. Initialize mem ndebug rename disk)
       (BinaryChunkDeserializer_filename filename)"

section \<open>Reading chunks\<close>

text \<open>
  \<open>ReadChunk\<close>: \<open>make_unique<byte[]>(chunkSize)\<close> throws when the allocator does not grant
  \<open>chunkSize\<close> bytes (as for every size that has wrapped around) and gives a zeroed
  buffer otherwise; \<open>fread\<close> overwrites its front with the bytes the file still holds;
  the number \<open>fread\<close> returns is not looked at.
\<close>

definition ReadChunk :: "allocator \<Rightarrow> size_t \<Rightarrow> byte list prog" where
  "ReadChunk mem chunkId =
     andThen get_this (\<lambda>s.
     case m_offsetsTable s of
       None \<Rightarrow> undef
     | Some t \<Rightarrow>
     (case GetOffset t chunkId of
       None \<Rightarrow> undef
     | Some off \<Rightarrow>
     andThen (file_op (\<lambda>f. ((), fseek_set f (m_dataStart s + off)))) (\<lambda>_.
     case GetChunkSize t chunkId of
       None \<Rightarrow> undef
     | Some chunkSize \<Rightarrow>
     andThen (allocate mem (unat chunkSize)) (\<lambda>_.
     andThen (file_op (\<lambda>f. fread f (unat chunkSize))) (\<lambda>bs.
     ret (bs @ replicate (unat chunkSize - length bs) 0))))))"

text \<open>
  Modelled from the spec: the materialized chunk (\<open>BinaryDataChunk.h\<close> is not part of
  the sources) holds what \<open>GetChunk\<close> hands to \<open>make_shared<BinaryDataChunk>\<close>, in
  that order: the chunk id, the start index, the sequence count, the byte buffer and the
  codec list.
\<close>

datatype BinaryDataChunk =
  BinaryDataChunk (chunk_chunkId: size_t) (chunk_startIndex: int64_t) (chunk_numSequences: int32_t)
    (chunk_buffer: "byte list") (chunk_deserializers: "BinaryDataDeserialzer option list")

definition GetChunk :: "allocator \<Rightarrow> size_t \<Rightarrow> BinaryDataChunk prog" where
  "GetChunk mem chunkId =
     andThen (ReadChunk mem chunkId) (\<lambda>chunkBuffer.
     andThen get_this (\<lambda>s.
     case m_offsetsTable s of
       None \<Rightarrow> undef
     | Some t \<Rightarrow>
     (case GetStartIndex t chunkId of
       None \<Rightarrow> undef
     | Some startIndex \<Rightarrow>
     (case GetNumSequences t chunkId of
       None \<Rightarrow> undef
     | Some n \<Rightarrow> ret (BinaryDataChunk chunkId startIndex n chunkBuffer (m_deserializers s))))))"

section \<open>Chunk and sequence descriptions\<close>

text \<open>
  Modelled from the spec: a chunk description (declared in \<open>DataDeserializer.h\<close>, not
  part of the sources) is the three values of the braced initialiser in
  \<open>GetChunkDescriptions\<close>, in their order: the chunk id, the number of samples, the
  number of sequences.
\<close>

datatype ChunkDescription = ChunkDescription int64_t int32_t int32_t

function GetChunkDescriptions_loop ::
  "OffsetsTable option \<Rightarrow> int64_t \<Rightarrow> int64_t \<Rightarrow> ChunkDescription list \<Rightarrow> ChunkDescription list outcome" where
  "GetChunkDescriptions_loop ot N c result =
     (if c <s N then
        (case ot of
           None \<Rightarrow> Undefined
         | Some t \<Rightarrow>
        (case GetNumSamples t c of
           None \<Rightarrow> Undefined
         | Some nsamples \<Rightarrow>
        (case GetNumSequences t c of
           None \<Rightarrow> Undefined
         | Some nsequences \<Rightarrow>
             GetChunkDescriptions_loop ot N (c + 1) (result @ [ChunkDescription c nsamples nsequences]))))
      else Returns result)"
  by pat_completeness auto
termination
proof (relation "measure (\<lambda>(ot, N, c, result). nat (sint N - sint c))")
  show "wf (measure (\<lambda>(ot, N, c, result). nat (sint N - sint c)))" by simp
next
  fix ot :: "OffsetsTable option" and N c :: int64_t and result r' :: "ChunkDescription list"
  assume a: "c <s N"
  have "sint c < sint N" using a by (simp add: word_sless_alt)
  then show "((ot, N, c + 1, r'), (ot, N, c, result))
             \<in> measure (\<lambda>(ot, N, c, result). nat (sint N - sint c))"
    using sint_succ_less [OF a] by simp
qed

declare GetChunkDescriptions_loop.simps [simp del]

text \<open>
  \<open>GetChunkDescriptions\<close>: the \<open>assert\<close> on the table, \<open>reserve(m_numBatches)\<close> (which
  throws for a negative count, converted to \<open>size_t\<close>), then the loop.
\<close>

definition GetChunkDescriptions :: "bool \<Rightarrow> ChunkDescription list prog" where
  "GetChunkDescriptions ndebug =
     andThen get_this (\<lambda>s.
       if \<not> ndebug \<and> m_offsetsTable s = None then abort
       else
     case m_numBatches s of
       None \<Rightarrow> undef
     | Some N \<Rightarrow>
         if N <s 0 then throw std_length_error
         else (\<lambda>s'. (GetChunkDescriptions_loop (m_offsetsTable s) N 0 [], s')))"

text \<open>
  Modelled from the spec: the decoded sequence of a stream, of which
  \<open>GetSequencesForChunk\<close> reads the number of samples, and the sequence description,
  which is the five values of the braced initialiser in \<open>GetSequencesForChunk\<close>, in
  their order: the id, the number of samples, the chunk id, the valid flag and the key
  pair (both declared in \<open>DataDeserializer.h\<close>, not part of the sources).
\<close>

record SequenceData =
  m_numberOfSamples :: size_t

datatype SequenceDescription =
  SequenceDescription size_t size_t size_t bool "size_t \<times> size_t"

text \<open>The inner loop: the largest \<open>m_numberOfSamples\<close> (unsigned) among the streams.\<close>

fun max_numSamples :: "size_t \<Rightarrow> SequenceData list \<Rightarrow> size_t" where
  "max_numSamples ns [] = ns"
| "max_numSamples ns (x # temp) = max_numSamples (max ns (m_numberOfSamples x)) temp"

text \<open>
  The loop over the sequences of the chunk. \<open>GetSequence\<close> stands for
  \<open>BinaryDataChunk::GetSequence\<close> (not part of the sources): from the chunk and the
  sequence id to the decoded sequence of every stream, or to how the call fails. \<open>n\<close> is
  the \<open>int32_t\<close> count converted to \<open>size_t\<close>; the vector stays as it is when a call
  fails.
\<close>

function GetSequencesForChunk_loop ::
  "(BinaryDataChunk \<Rightarrow> size_t \<Rightarrow> SequenceData list outcome) \<Rightarrow> BinaryDataChunk \<Rightarrow> size_t \<Rightarrow> size_t
   \<Rightarrow> size_t \<Rightarrow> size_t \<Rightarrow> SequenceDescription list \<Rightarrow> unit outcome \<times> SequenceDescription list" where
  "GetSequencesForChunk_loop GetSequence chunk startId chunkId n c result =
     (if c < n then
        (case GetSequence chunk (startId + c) of
           Returns temp \<Rightarrow>
             GetSequencesForChunk_loop GetSequence chunk startId chunkId n (c + 1)
               (result @ [SequenceDescription (startId + c) (max_numSamples 0 temp) chunkId True
                            (startId + c, 0)])
         | Throws e \<Rightarrow> (Throws e, result)
         | AssertFailed \<Rightarrow> (AssertFailed, result)
         | Undefined \<Rightarrow> (Undefined, result))
      else (Returns (), result))"
  by pat_completeness auto
termination
proof (relation "measure (\<lambda>(g, chunk, startId, chunkId, n, c, result). unat n - unat c)")
  show "wf (measure (\<lambda>(g, chunk, startId, chunkId, n, c, result). unat n - unat c))" by simp
next
  fix g :: "BinaryDataChunk \<Rightarrow> size_t \<Rightarrow> SequenceData list outcome" and chunk :: BinaryDataChunk
    and startId chunkId n c :: size_t and result r' :: "SequenceDescription list"
  assume a: "c < n"
  have lt: "unat c < unat n" using a by (simp add: word_less_nat_alt)
  have "unat n < 2 ^ 64" using unsigned_less [of n] by simp
  with lt have "unat c + 1 < 2 ^ 64" by simp
  then have "unat (c + 1) = unat c + 1" by (simp add: unat_word_ariths)
  with lt show "((g, chunk, startId, chunkId, n, c + 1, r'), (g, chunk, startId, chunkId, n, c, result))
             \<in> measure (\<lambda>(g, chunk, startId, chunkId, n, c, result). unat n - unat c)"
    by simp
qed

declare GetSequencesForChunk_loop.simps [simp del]

text \<open>
  \<open>GetSequencesForChunk(chunkId, result)\<close>: the vector \<open>result\<close> belongs to the caller,
  so the model returns it next to the outcome. \<open>reserve\<close> throws \<open>std::length_error\<close> for
  a negative count and \<open>std::bad_alloc\<close> when the capacity is not granted.
\<close>

definition GetSequencesForChunk ::
  "allocator \<Rightarrow> (BinaryDataChunk \<Rightarrow> size_t \<Rightarrow> SequenceData list outcome) \<Rightarrow> size_t
   \<Rightarrow> SequenceDescription list
   \<Rightarrow> BinaryChunkDeserializer \<Rightarrow> (unit outcome \<times> SequenceDescription list) \<times> BinaryChunkDeserializer" where
  "GetSequencesForChunk mem GetSequence chunkId result s =
     (case m_offsetsTable s of
        None \<Rightarrow> ((Undefined, result), s)
      | Some t \<Rightarrow>
     (case GetNumSequences t chunkId of
        None \<Rightarrow> ((Undefined, result), s)
      | Some n \<Rightarrow>
          if n <s 0 then ((Throws std_length_error, result), s)
          else if \<not> grants_capacity mem (unat n) then ((Throws std_bad_alloc, result), s)
          else
     (case GetChunk mem chunkId s of
        (Throws e, s') \<Rightarrow> ((Throws e, result), s')
      | (AssertFailed, s') \<Rightarrow> ((AssertFailed, result), s')
      | (Undefined, s') \<Rightarrow> ((Undefined, result), s')
      | (Returns chunk, s') \<Rightarrow>
     (case GetStartIndex t chunkId of
        None \<Rightarrow> ((Undefined, result), s')
      | Some startId \<Rightarrow>
          (GetSequencesForChunk_loop GetSequence chunk startId chunkId (scast n) 0 result, s')))))"

section \<open>Example inputs\<close>

text \<open>An allocator that grants every request below the largest object size.\<close>

definition plenty :: allocator where
  "plenty = \<lparr>grants_bytes = (\<lambda>n. True), grants_capacity = (\<lambda>n. True)\<rparr>"

text \<open>An array of two chunk records (3 and 5 sequences) and the final record.\<close>

definition two_chunks :: "DiskOffsetsTable list" where
  "two_chunks = [\<lparr>offset = 0, numSequences = 3, numSamples = 3\<rparr>,
                 \<lparr>offset = 12, numSequences = 5, numSamples = 5\<rparr>,
                 \<lparr>offset = 32, numSequences = 0, numSamples = 0\<rparr>]"

text \<open>
  A file of one chunk and one dense stream named \<open>x\<close> (float, one column): version 1,
  one batch, one input; the stream header; one offsets record (offset 0, one sequence, one
  sample); four bytes of payload. The header ends at byte 37, the data starts at byte 53
  and the file has 57 bytes.
\<close>

definition file_one_chunk :: "byte list" where
  "file_one_chunk =
     [1,0,0,0,0,0,0,0, 1,0,0,0,0,0,0,0, 1,0,0,0,
      1,0,0,0, 120, 0,0,0,0, 0,0,0,0, 1,0,0,0,
      0,0,0,0,0,0,0,0, 1,0,0,0, 1,0,0,0,
      10,20,30,40]"

text \<open>The object after its constructor has read that file.\<close>

definition store_one_chunk :: BinaryChunkDeserializer where
  "store_one_chunk =
     \<lparr>m_streams = [Some \<lparr>m_name = [120], m_id = 0, m_elementType = tfloat,
                           m_storageType = dense, m_sampleLayout = 1\<rparr>],
      m_filename = ''data.bin'',
      m_file = Some \<lparr>content = file_one_chunk, pos = 57\<rparr>,
      m_offsetStart = 37, m_dataStart = 53,
      m_deserializers = [Some (DenseBinaryDataDeserializer tfloat 1)],
      m_offsetsTable = Some \<lparr>OffsetsTable.m_numBatches = 1,
         m_diskOffsetsTable = [\<lparr>offset = 0, numSequences = 1, numSamples = 1\<rparr>,
                               \<lparr>offset = 57, numSequences = 0, numSamples = 0\<rparr>],
         m_startIndex = [0]\<rparr>,
      m_versionNumber = 1, m_numBatches = Some 1, m_numInputs = Some 1, m_traceLevel = 0\<rparr>"

definition table_one_chunk :: OffsetsTable where
  "table_one_chunk =
     \<lparr>OffsetsTable.m_numBatches = 1,
      m_diskOffsetsTable = [\<lparr>offset = 0, numSequences = 1, numSamples = 1\<rparr>,
                            \<lparr>offset = 57, numSequences = 0, numSamples = 0\<rparr>],
      m_startIndex = [0]\<rparr>"

text \<open>The same file with version number 2.\<close>

definition file_version2 :: "byte list" where
  "file_version2 = 2 # tl file_one_chunk"

text \<open>
  A file of two chunks of 8 and 4 bytes (offsets 0 and 8; two sequences and one), cut off
  after the first four bytes of payload: the data starts at byte 69, the file has 73 bytes.
\<close>

definition file_truncated :: "byte list" where
  "file_truncated =
     [1,0,0,0,0,0,0,0, 2,0,0,0,0,0,0,0, 1,0,0,0,
      1,0,0,0, 120, 0,0,0,0, 0,0,0,0, 1,0,0,0,
      0,0,0,0,0,0,0,0, 2,0,0,0, 2,0,0,0,
      8,0,0,0,0,0,0,0, 1,0,0,0, 1,0,0,0,
      10,20,30,40]"

definition store_truncated :: BinaryChunkDeserializer where
  "store_truncated =
     \<lparr>m_streams = [Some \<lparr>m_name = [120], m_id = 0, m_elementType = tfloat,
                           m_storageType = dense, m_sampleLayout = 1\<rparr>],
      m_filename = ''data.bin'',
      m_file = Some \<lparr>content = file_truncated, pos = 73\<rparr>,
      m_offsetStart = 37, m_dataStart = 69,
      m_deserializers = [Some (DenseBinaryDataDeserializer tfloat 1)],
      m_offsetsTable = Some \<lparr>OffsetsTable.m_numBatches = 2,
         m_diskOffsetsTable = [\<lparr>offset = 0, numSequences = 2, numSamples = 2\<rparr>,
                               \<lparr>offset = 8, numSequences = 1, numSamples = 1\<rparr>,
                               \<lparr>offset = 73, numSequences = 0, numSamples = 0\<rparr>],
         m_startIndex = [0, 0]\<rparr>,
      m_versionNumber = 1, m_numBatches = Some 2, m_numInputs = Some 1, m_traceLevel = 0\<rparr>"

definition table_truncated :: OffsetsTable where
  "table_truncated =
     \<lparr>OffsetsTable.m_numBatches = 2,
      m_diskOffsetsTable = [\<lparr>offset = 0, numSequences = 2, numSamples = 2\<rparr>,
                            \<lparr>offset = 8, numSequences = 1, numSamples = 1\<rparr>,
                            \<lparr>offset = 73, numSequences = 0, numSamples = 0\<rparr>],
      m_startIndex = [0, 0]\<rparr>"

text \<open>
  The complete file of two chunks (offsets 0 and 8, two sequences and one, 12 bytes of
  payload, 81 bytes in all) and the object after its constructor has read it.
\<close>

definition file_two_chunks :: "byte list" where
  "file_two_chunks = file_truncated @ [50, 60, 70, 80, 11, 12, 13, 14]"

definition table_two_chunks :: OffsetsTable where
  "table_two_chunks =
     \<lparr>OffsetsTable.m_numBatches = 2,
      m_diskOffsetsTable = [\<lparr>offset = 0, numSequences = 2, numSamples = 2\<rparr>,
                            \<lparr>offset = 8, numSequences = 1, numSamples = 1\<rparr>,
                            \<lparr>offset = 81, numSequences = 0, numSamples = 0\<rparr>],
      m_startIndex = [0, 0]\<rparr>"

definition store_two_chunks :: BinaryChunkDeserializer where
  "store_two_chunks =
     \<lparr>m_streams = [Some \<lparr>m_name = [120], m_id = 0, m_elementType = tfloat,
                           m_storageType = dense, m_sampleLayout = 1\<rparr>],
      m_filename = ''data.bin'',
      m_file = Some \<lparr>content = file_two_chunks, pos = 81\<rparr>,
      m_offsetStart = 37, m_dataStart = 69,
      m_deserializers = [Some (DenseBinaryDataDeserializer tfloat 1)],
      m_offsetsTable = Some table_two_chunks,
      m_versionNumber = 1, m_numBatches = Some 2, m_numInputs = Some 1, m_traceLevel = 0\<rparr>"

text \<open>
  The one-chunk file with the offset of its only record set to 100, beyond the end of the
  file; and a file of three chunks (offsets 0, 4 and 8) whose second record has the
  sequence count -1. In both the offset records are in increasing order.
\<close>

definition file_offset_past_end :: "byte list" where
  "file_offset_past_end = file_one_chunk[37 := 100]"

definition table_offset_past_end :: OffsetsTable where
  "table_offset_past_end =
     \<lparr>OffsetsTable.m_numBatches = 1,
      m_diskOffsetsTable = [\<lparr>offset = 100, numSequences = 1, numSamples = 1\<rparr>,
                            \<lparr>offset = 57, numSequences = 0, numSamples = 0\<rparr>],
      m_startIndex = [0]\<rparr>"

text \<open>The object after its constructor has read the file with the offset 100.\<close>

definition store_offset_past_end :: BinaryChunkDeserializer where
  "store_offset_past_end =
     \<lparr>m_streams = [Some \<lparr>m_name = [120], m_id = 0, m_elementType = tfloat,
                           m_storageType = dense, m_sampleLayout = 1\<rparr>],
      m_filename = ''data.bin'',
      m_file = Some \<lparr>content = file_offset_past_end, pos = 57\<rparr>,
      m_offsetStart = 37, m_dataStart = 53,
      m_deserializers = [Some (DenseBinaryDataDeserializer tfloat 1)],
      m_offsetsTable = Some table_offset_past_end,
      m_versionNumber = 1, m_numBatches = Some 1, m_numInputs = Some 1, m_traceLevel = 0\<rparr>"

definition file_negative_count :: "byte list" where
  "file_negative_count =
     [1,0,0,0,0,0,0,0, 3,0,0,0,0,0,0,0, 1,0,0,0,
      1,0,0,0, 120, 0,0,0,0, 0,0,0,0, 1,0,0,0,
      0,0,0,0,0,0,0,0, 1,0,0,0, 1,0,0,0,
      4,0,0,0,0,0,0,0, 255,255,255,255, 1,0,0,0,
      8,0,0,0,0,0,0,0, 1,0,0,0, 1,0,0,0,
      10,20,30,40, 50,60,70,80, 11,12,13,14]"

definition table_negative_count :: OffsetsTable where
  "table_negative_count =
     \<lparr>OffsetsTable.m_numBatches = 3,
      m_diskOffsetsTable = [\<lparr>offset = 0, numSequences = 1, numSamples = 1\<rparr>,
                            \<lparr>offset = 4, numSequences = - 1, numSamples = 1\<rparr>,
                            \<lparr>offset = 8, numSequences = 1, numSamples = 1\<rparr>,
                            \<lparr>offset = 97, numSequences = 0, numSamples = 0\<rparr>],
      m_startIndex = [0, 0, - 1]\<rparr>"

section \<open>What the start-index loop computes\<close>

text \<open>The running sums of the sequence counts of a list of records, from \<open>seen\<close> on.\<close>

fun starts :: "size_t \<Rightarrow> DiskOffsetsTable list \<Rightarrow> size_t list" where
  "starts seen [] = []"
| "starts seen (r # rs) = seen # starts (seen + scast (numSequences r)) rs"

section \<open>Predicates on the state\<close>

text \<open>
  \<open>Initialized\<close>: the offsets table is loaded, for a batch count that is not negative,
  with one record more than batches and one start index per batch, and the file is open.
  \<open>header_inv\<close>: the handle is on the given file, at a position inside it, and the
  batch count has been read. \<open>preserves\<close>: a member function keeps a predicate,
  however it ends.
\<close>

definition Initialized :: "BinaryChunkDeserializer \<Rightarrow> bool" where
  "Initialized s =
     (case m_numBatches s of
        None \<Rightarrow> False
      | Some N \<Rightarrow>
     (case m_offsetsTable s of
        None \<Rightarrow> False
      | Some t \<Rightarrow>
          0 \<le>s N \<and> m_file s \<noteq> None \<and> OffsetsTable.m_numBatches t = N
          \<and> length (m_diskOffsetsTable t) = unat N + 1 \<and> length (m_startIndex t) = unat N))"

definition header_inv :: "byte list \<Rightarrow> int64_t \<Rightarrow> BinaryChunkDeserializer \<Rightarrow> bool" where
  "header_inv disk N s =
     ((case m_file s of None \<Rightarrow> False | Some f \<Rightarrow> content f = disk \<and> pos f \<le> length disk)
      \<and> m_numBatches s = Some N)"

definition preserves :: "(BinaryChunkDeserializer \<Rightarrow> bool) \<Rightarrow> 'a prog \<Rightarrow> bool" where
  "preserves I m = (\<forall>s r s1. I s \<and> m s = (r, s1) \<longrightarrow> I s1)"

text \<open>The \<open>N\<close> records of the offsets table that the file holds from byte \<open>offsetStart\<close> on.\<close>

definition disk_records :: "byte list \<Rightarrow> int64_t \<Rightarrow> int64_t \<Rightarrow> DiskOffsetsTable list" where
  "disk_records disk offsetStart N = parse_records (take (16 * unat N) (drop (unat offsetStart) disk))"

section \<open>Signed and unsigned readings\<close>

lemma sint_nonneg: "0 \<le>s (x :: 'a::len word) \<Longrightarrow> sint x = int (unat x)"
proof -
  assume "0 \<le>s x"
  then have a: "0 \<le> sint x" by (simp only: word_sle_eq sint_0)
  have "sint x < 2 ^ (LENGTH('a) - 1)" by (rule sint_lt)
  also have "(2::int) ^ (LENGTH('a) - 1) \<le> 2 ^ LENGTH('a)" by (rule power_increasing) simp_all
  finally have b: "sint x < 2 ^ LENGTH('a)" .
  have "uint x = take_bit LENGTH('a) (sint x)" by (rule uint_sint)
  also have "\<dots> = sint x" using a b by (rule take_bit_int_eq_self)
  finally have "uint x = sint x" .
  then show ?thesis by (simp only: flip: uint_nat)
qed

lemma sless_unat:
  assumes "0 \<le>s (c :: 'a::len word)" and "0 \<le>s n"
  shows "c <s n \<longleftrightarrow> unat c < unat n"
  using sint_nonneg [OF assms(1)] sint_nonneg [OF assms(2)]
  by (simp only: word_sless_alt of_nat_less_iff)

lemma succ_nonneg:
  assumes "0 \<le>s (c :: int64_t)" and "c <s n"
  shows "0 \<le>s c + 1"
proof -
  have "0 \<le> sint c" using assms(1) by (simp only: word_sle_eq sint_0)
  then have "0 \<le> sint (c + 1)" using sint_succ_less [OF assms(2)] by linarith
  then show ?thesis by (simp only: word_sle_eq sint_0)
qed

lemma unat_succ_sless:
  assumes "0 \<le>s (c :: int64_t)" and "c <s n"
  shows "unat (c + 1) = Suc (unat c)"
proof -
  have "int (unat (c + 1)) = sint (c + 1)" using sint_nonneg [OF succ_nonneg [OF assms]] by simp
  also have "\<dots> = sint c + 1" using assms(2) by (rule sint_succ_less)
  also have "\<dots> = int (unat c) + 1" using sint_nonneg [OF assms(1)] by simp
  finally show ?thesis by linarith
qed

section \<open>The start-index loop\<close>

lemma length_starts: "length (starts seen rs) = length rs"
  by (induction rs arbitrary: seen) auto

lemma Initialize_loop_starts:
  "0 \<le>s c \<Longrightarrow> 0 \<le>s n \<Longrightarrow> unat c \<le> unat n \<Longrightarrow> length si = unat n \<Longrightarrow> unat n \<le> length tbl \<Longrightarrow>
   Initialize_loop tbl n c seen si =
     Some (take (unat c) si @ starts seen (take (unat n - unat c) (drop (unat c) tbl)))"
proof (induction tbl n c seen si rule: Initialize_loop.induct)
  case (1 tbl n c seen si)
  show ?case
  proof (cases "c <s n")
    case True
    then have lt: "unat c < unat n" using 1 by (simp add: sless_unat)
    have suc: "unat (c + 1) = Suc (unat c)" using 1 True by (simp add: unat_succ_sless)
    have nn: "0 \<le>s c + 1" using 1 True by (simp add: succ_nonneg)
    have inb: "unat c < length si \<and> unat c < length tbl" using lt 1 by simp
    have ih: "Initialize_loop tbl n (c + 1) (seen + scast (numSequences (tbl ! unat c))) (si[unat c := seen])
        = Some (take (unat (c + 1)) (si[unat c := seen]) @
            starts (seen + scast (numSequences (tbl ! unat c)))
              (take (unat n - unat (c + 1)) (drop (unat (c + 1)) tbl)))"
      using "1.IH" [OF True inb nn] 1 lt suc by simp
    have t1: "take (Suc (unat c)) (si[unat c := seen]) = take (unat c) si @ [seen]"
      using inb by (simp add: take_Suc_conv_app_nth)
    have t2: "take (unat n - unat c) (drop (unat c) tbl)
        = tbl ! unat c # take (unat n - Suc (unat c)) (drop (Suc (unat c)) tbl)"
    proof -
      have "drop (unat c) tbl = tbl ! unat c # drop (Suc (unat c)) tbl"
        using inb by (simp add: Cons_nth_drop_Suc)
      moreover have "unat n - unat c = Suc (unat n - Suc (unat c))" using lt by simp
      ultimately show ?thesis by simp
    qed
    show ?thesis
      using True inb ih suc t1 t2 by (subst Initialize_loop.simps) simp
  next
    case False
    then have "unat c = unat n" using 1 by (simp add: sless_unat)
    then show ?thesis using False 1 by (subst Initialize_loop.simps) simp
  qed
qed

section \<open>Sequencing and what the header reads keep\<close>

lemmas prog_defs = andThen_def ret_def throw_def abort_def undef_def get_this_def modify_def
  file_op_def fread_scalar_def

lemma andThen_Returns:
  "andThen m f s = (Returns x, s') \<longleftrightarrow> (\<exists>y s1. m s = (Returns y, s1) \<and> f y s1 = (Returns x, s'))"
  by (auto simp: andThen_def split: prod.splits outcome.splits)

lemma preservesD: "preserves I m \<Longrightarrow> I s \<Longrightarrow> m s = (r, s1) \<Longrightarrow> I s1"
  unfolding preserves_def by blast

lemma preserves_andThen:
  assumes m: "preserves I m" and f: "\<And>x. preserves I (f x)"
  shows "preserves I (andThen m f)"
  unfolding preserves_def
proof (intro allI impI, elim conjE)
  fix s r s1
  assume I: "I s" and run: "andThen m f s = (r, s1)"
  obtain r0 s0 where step: "m s = (r0, s0)" by (cases "m s")
  have I0: "I s0" using preservesD [OF m I step] .
  show "I s1"
  proof (cases r0)
    case (Returns x)
    then have "f x s0 = (r, s1)" using run step by (simp add: andThen_def)
    then show ?thesis using preservesD [OF f I0] by blast
  next
    case (Throws e)
    then show ?thesis using run step I0 by (simp add: andThen_def)
  next
    case AssertFailed
    then show ?thesis using run step I0 by (simp add: andThen_def)
  next
    case Undefined
    then show ?thesis using run step I0 by (simp add: andThen_def)
  qed
qed

lemma preserves_ret: "preserves I (ret x)" by (simp add: preserves_def ret_def)
lemma preserves_throw: "preserves I (throw e)" by (simp add: preserves_def throw_def)
lemma preserves_undef: "preserves I undef" by (simp add: preserves_def undef_def)
lemma preserves_abort: "preserves I abort" by (simp add: preserves_def abort_def)
lemma preserves_if: "preserves I a \<Longrightarrow> preserves I b \<Longrightarrow> preserves I (if c then a else b)" by simp

lemma preserves_fread: "preserves (header_inv disk N) (file_op (\<lambda>f. fread f n))"
  by (auto simp: preserves_def header_inv_def file_op_def fread_def Let_def split: option.splits)


lemma preserves_fread_scalar: "preserves (header_inv disk N) (fread_scalar n)"
  unfolding fread_scalar_def
  by (intro preserves_andThen preserves_fread preserves_if preserves_ret preserves_undef)

lemma preserves_allocate: "preserves I (allocate mem n)"
  by (simp add: allocate_def preserves_ret preserves_throw)

lemma preserves_read_elemType: "preserves (header_inv disk N) read_elemType"
  unfolding read_elemType_def
  by (intro preserves_andThen preserves_fread_scalar preserves_if preserves_ret preserves_throw)

lemma preserves_Dense: "preserves (header_inv disk N) DenseBinaryDataDeserializer_new"
  unfolding DenseBinaryDataDeserializer_new_def
  by (intro preserves_andThen preserves_fread_scalar preserves_read_elemType preserves_ret)

lemma preserves_Sparse: "preserves (header_inv disk N) SparseBinaryDataDeserializer_new"
  unfolding SparseBinaryDataDeserializer_new_def
  by (intro preserves_andThen preserves_fread_scalar preserves_read_elemType preserves_ret
      preserves_if preserves_throw)

lemma preserves_streams_modify:
  "preserves (header_inv disk N) (modify (\<lambda>s. s\<lparr>m_deserializers := d s, m_streams := st s\<rparr>))"
  by (simp add: preserves_def header_inv_def modify_def)

lemma preserves_resize_m_streams: "preserves (header_inv disk N) (resize_m_streams mem n)"
  by (auto simp: preserves_def header_inv_def resize_m_streams_def allocate_def prog_defs
      split: if_splits)

lemma preserves_resize_m_deserializers: "preserves (header_inv disk N) (resize_m_deserializers mem n)"
  by (auto simp: preserves_def header_inv_def resize_m_deserializers_def allocate_def prog_defs
      split: if_splits)

lemma preserves_read_stream: "preserves (header_inv disk N) (read_stream mem rename c maxLen)"
  unfolding read_stream_def Let_def
  by (intro preserves_andThen preserves_fread_scalar preserves_fread preserves_if preserves_undef
      preserves_throw preserves_ret preserves_allocate preserves_Dense preserves_Sparse
      preserves_streams_modify)


lemma read_streams_inv:
  "header_inv disk N s \<Longrightarrow> read_streams mem rename n c maxLen s = (r, s1) \<Longrightarrow> header_inv disk N s1"
proof (induction mem rename n c maxLen s rule: read_streams.induct)
  case (1 mem rename n c maxLen s)
  show ?case
  proof (cases "c <s n")
    case True
    obtain r0 s0 where step: "read_stream mem rename c maxLen s = (r0, s0)"
      by (cases "read_stream mem rename c maxLen s")
    have inv0: "header_inv disk N s0"
      using preservesD [OF preserves_read_stream "1.prems"(1) step] .
    show ?thesis
    proof (cases r0)
      case (Returns u)
      have "read_streams mem rename n (c + 1) u s0 = (r, s1)"
        using "1.prems"(2) True step Returns by (subst (asm) read_streams.simps) simp
      then show ?thesis using "1.IH" [OF True step [symmetric] Returns inv0] by simp
    next
      case (Throws e)
      then show ?thesis using "1.prems"(2) True step inv0 by (subst (asm) read_streams.simps) auto
    next
      case AssertFailed
      then show ?thesis using "1.prems"(2) True step inv0 by (subst (asm) read_streams.simps) auto
    next
      case Undefined
      then show ?thesis using "1.prems"(2) True step inv0 by (subst (asm) read_streams.simps) auto
    qed
  next
    case False
    then show ?thesis using "1.prems" by (subst (asm) read_streams.simps) auto
  qed
qed

lemma OffsetsTable_new_Returns:
  assumes "OffsetsTable_new N tbl = Returns t" and "unat N \<le> length tbl"
  shows "0 \<le>s N \<and> OffsetsTable.m_numBatches t = N \<and> m_diskOffsetsTable t = tbl
       \<and> m_startIndex t = (if N = 0 then [] else 0 # starts 0 (take (unat N - 1) (drop 1 tbl)))"
proof -
  have nn: "0 \<le>s N" using assms(1) by (auto simp: OffsetsTable_new_def word_sle_eq word_sless_alt split: if_splits)
  show ?thesis
  proof (cases "N = 0")
    case True
    then show ?thesis using assms(1) nn
      by (auto simp: OffsetsTable_new_def Initialize_loop.simps word_sless_alt split: if_splits option.splits)
  next
    case False
    then have pos: "1 \<le> unat N" by (simp add: unat_gt_0 Suc_le_eq)
    have "0 \<le>s (1 :: int64_t)" by (simp add: word_sle_eq)
    then have "Initialize_loop tbl N 1 0 (replicate (unat N) 0) =
      Some (take (unat (1::int64_t)) (replicate (unat N) 0) @ starts 0 (take (unat N - unat (1::int64_t)) (drop (unat (1::int64_t)) tbl)))"
      using nn pos assms(2) by (intro Initialize_loop_starts) simp_all
    then have "Initialize_loop tbl N 1 0 (replicate (unat N) 0) = Some (0 # starts 0 (take (unat N - 1) (drop 1 tbl)))"
      using pos by (simp add: take_Suc_conv_app_nth)
    then show ?thesis using assms(1) nn False
      by (auto simp: OffsetsTable_new_def split: if_splits)
  qed
qed

lemma OffsetsTable_new_lengths:
  assumes "OffsetsTable_new N tbl = Returns t" and "unat N \<le> length tbl"
  shows "length (m_startIndex t) = unat N"
proof -
  have *: "m_startIndex t = (if N = 0 then [] else 0 # starts 0 (take (unat N - 1) (drop 1 tbl)))"
    using OffsetsTable_new_Returns [OF assms] by simp
  show ?thesis
  proof (cases "N = 0")
    case True then show ?thesis using * by simp
  next
    case False
    then have "1 \<le> unat N" by (simp add: unat_gt_0 Suc_le_eq)
    then show ?thesis using * False assms(2) by (simp add: length_starts)
  qed
qed

lemma length_parse_records: "length (parse_records bs) = length bs div 16"
  by (simp add: parse_records_def)

lemma ReadOffsetsTable_Returns:
  assumes run: "ReadOffsetsTable mem ndebug 0 N s = (Returns (), s')"
    and nb: "m_numBatches s = Some N" and mf: "m_file s = Some f"
  shows "\<exists>t. OffsetsTable_new N
              (parse_records (take (16 * unat N) (drop (pos (fseek_set f (m_offsetStart s))) (content f)))
               @ [\<lparr>offset = of_nat (length (content f)), numSequences = 0, numSamples = 0\<rparr>]) = Returns t
           \<and> length (parse_records (take (16 * unat N) (drop (pos (fseek_set f (m_offsetStart s))) (content f)))) = unat N
           \<and> s' = s\<lparr>m_file := Some (f\<lparr>pos := length (content f)\<rparr>), m_offsetsTable := Some t\<rparr>"
proof -
  let ?bs = "take (16 * unat N) (drop (pos (fseek_set f (m_offsetStart s))) (content f))"
  let ?final = "\<lparr>offset = of_nat (length (content f)), numSequences = 0, numSamples = 0\<rparr>"
  have le: "length (parse_records ?bs) \<le> unat N"
    by (simp add: length_parse_records) 
  have cont: "content (fseek_set f p) = content f" for p by (simp add: fseek_set_def)
  from run nb mf have
    ok: "\<not> (length (parse_records ?bs) < unat N \<or> unat (N + 1) \<le> unat N)"
    by (auto simp: ReadOffsetsTable_def allocate_def prog_defs fread_def Let_def cont split: if_splits)
  from run nb mf ok have
    fin: "(case OffsetsTable_new N (parse_records ?bs @ [?final]) of
            Returns t \<Rightarrow> s' = s\<lparr>m_file := Some (f\<lparr>pos := length (content f)\<rparr>), m_offsetsTable := Some t\<rparr>
          | _ \<Rightarrow> False)"
    by (auto simp: ReadOffsetsTable_def allocate_def prog_defs fread_def fseek_end_def ftell_def Let_def cont
        split: if_splits outcome.splits)
  then show ?thesis using ok le by (auto split: outcome.splits)
qed

lemma Initialize_Returns:
  assumes run: "Initialize mem ndebug rename disk s = (Returns (), s')"
  shows "\<exists>s0 f0 N. ReadOffsetsTable mem ndebug 0 N s0 = (Returns (), s') \<and> m_numBatches s0 = Some N
          \<and> m_file s0 = Some f0 \<and> content f0 = disk \<and> pos f0 \<le> length disk
          \<and> m_offsetStart s0 = of_nat (pos f0) \<and> m_dataStart s0 = of_nat (pos f0) + N * 16
          \<and> N = le_word (take 8 (drop 8 disk))"
proof -
  define tail :: "int64_t \<Rightarrow> int32_t \<Rightarrow> unit prog" where
    "tail numBatches numInputs =
       andThen (resize_m_streams mem (unat numInputs)) (\<lambda>_.
       andThen (resize_m_deserializers mem (unat numInputs)) (\<lambda>_.
       andThen (read_streams mem rename numInputs 0 100) (\<lambda>_.
       andThen (file_op (\<lambda>f. (ftell f, f))) (\<lambda>p.
       andThen (modify (\<lambda>s. s\<lparr>m_offsetStart := p, m_dataStart := p + numBatches * 16\<rparr>)) (\<lambda>_.
       ReadOffsetsTable mem ndebug 0 numBatches)))))" for numBatches numInputs
  let ?N = "le_word (take 8 (drop 8 disk)) :: int64_t"
  have "\<exists>s2 ni. tail ?N ni s2 = (Returns (), s') \<and> header_inv disk ?N s2"
    using run unfolding Initialize_def tail_def [symmetric]
    by (auto simp: prog_defs fread_def fseek_set_def Let_def header_inv_def split: if_splits)
  then obtain s2 ni where t: "tail ?N ni s2 = (Returns (), s')" and inv2: "header_inv disk ?N s2"
    by blast
  from t obtain sa se s4 p s5 s6 u1 u2 u3 u4 where
    a1: "resize_m_streams mem (unat ni) s2 = (Returns u1, sa)"
    and a2: "resize_m_deserializers mem (unat ni) sa = (Returns u2, se)"
    and rs: "read_streams mem rename ni 0 100 se = (Returns u3, s4)"
    and ft: "file_op (\<lambda>f. (ftell f, f)) s4 = (Returns p, s5)"
    and m2: "modify (\<lambda>s. s\<lparr>m_offsetStart := p, m_dataStart := p + ?N * 16\<rparr>) s5 = (Returns u4, s6)"
    and ro: "ReadOffsetsTable mem ndebug 0 ?N s6 = (Returns (), s')"
    unfolding tail_def andThen_Returns by blast
  have inva: "header_inv disk ?N sa" using preservesD [OF preserves_resize_m_streams inv2 a1] .
  have inve: "header_inv disk ?N se" using preservesD [OF preserves_resize_m_deserializers inva a2] .
  have inv4: "header_inv disk ?N s4" using read_streams_inv [OF inve rs] .
  then obtain f0 where f0: "m_file s4 = Some f0" "content f0 = disk" "pos f0 \<le> length disk"
    and nb4: "m_numBatches s4 = Some ?N"
    by (auto simp: header_inv_def split: option.splits)
  have s5: "s5 = s4" and p: "p = of_nat (pos f0)"
    using ft f0 by (auto simp: file_op_def ftell_def)
  have s6: "s6 = s4\<lparr>m_offsetStart := p, m_dataStart := p + ?N * 16\<rparr>"
    using m2 s5 by (auto simp: modify_def)
  show ?thesis
    using ro s6 p f0 nb4 by (intro exI [of _ s6] exI [of _ f0] exI [of _ ?N]) simp
qed

lemma Initialize_Initialized:
  assumes run: "Initialize mem ndebug rename disk s = (Returns (), s')"
  shows "Initialized s' \<and> m_numBatches s' = Some (le_word (take 8 (drop 8 disk)))
       \<and> m_file s' = Some \<lparr>content = disk, pos = length disk\<rparr>
       \<and> m_dataStart s' = m_offsetStart s' + le_word (take 8 (drop 8 disk)) * 16"
proof -
  from Initialize_Returns [OF run] obtain s0 f0 N where
    ro: "ReadOffsetsTable mem ndebug 0 N s0 = (Returns (), s')" and nb: "m_numBatches s0 = Some N"
    and f0: "m_file s0 = Some f0" "content f0 = disk"
    and st: "m_offsetStart s0 = of_nat (pos f0)" "m_dataStart s0 = of_nat (pos f0) + N * 16"
    and N: "N = le_word (take 8 (drop 8 disk))"
    by blast
  let ?recs = "parse_records (take (16 * unat N) (drop (pos (fseek_set f0 (m_offsetStart s0))) (content f0)))"
  let ?final = "\<lparr>offset = of_nat (length (content f0)), numSequences = 0, numSamples = 0\<rparr>"
  from ReadOffsetsTable_Returns [OF ro nb f0(1)] obtain t where
    new: "OffsetsTable_new N (?recs @ [?final]) = Returns t" and len: "length ?recs = unat N"
    and s': "s' = s0\<lparr>m_file := Some (f0\<lparr>pos := length (content f0)\<rparr>), m_offsetsTable := Some t\<rparr>"
    by blast
  have le: "unat N \<le> length (?recs @ [?final])" using len by simp
  have shape: "0 \<le>s N \<and> OffsetsTable.m_numBatches t = N \<and> m_diskOffsetsTable t = ?recs @ [?final]"
    using OffsetsTable_new_Returns [OF new le] by simp
  have lsi: "length (m_startIndex t) = unat N" using OffsetsTable_new_lengths [OF new le] .
  have fl: "f0\<lparr>pos := length (content f0)\<rparr> = \<lparr>content = disk, pos = length disk\<rparr>"
    using f0(2) by (cases f0) simp
  show ?thesis
    using s' nb shape lsi len fl st N by (simp add: Initialized_def)
qed

lemma unat_of_nat_pos: "P < 2 ^ 63 \<Longrightarrow> unat (of_nat P :: int64_t) = P"
  by (simp add: unsigned_of_nat take_bit_nat_eq_self)

lemma fseek_set_of_nat: "pos f < 2 ^ 63 \<Longrightarrow> pos (fseek_set f (of_nat (pos f))) = pos f"
  by (simp add: fseek_set_def unat_of_nat_pos)

lemma Initialize_table:
  assumes run: "Initialize mem ndebug rename disk s = (Returns (), s')" and small: "length disk < 2 ^ 63"
  shows "\<exists>N t. m_numBatches s' = Some N \<and> m_offsetsTable s' = Some t \<and> 0 \<le>s N
           \<and> length (disk_records disk (m_offsetStart s') N) = unat N
           \<and> m_diskOffsetsTable t = disk_records disk (m_offsetStart s') N
                @ [\<lparr>offset = of_nat (length disk), numSequences = 0, numSamples = 0\<rparr>]
           \<and> OffsetsTable_new N (m_diskOffsetsTable t) = Returns t"
proof -
  from Initialize_Returns [OF run] obtain s0 f0 N where
    ro: "ReadOffsetsTable mem ndebug 0 N s0 = (Returns (), s')" and nb: "m_numBatches s0 = Some N"
    and f0: "m_file s0 = Some f0" "content f0 = disk" "pos f0 \<le> length disk"
    and st: "m_offsetStart s0 = of_nat (pos f0)"
    by blast
  have P: "pos f0 < 2 ^ 63" using f0(3) small by simp
  let ?recs = "parse_records (take (16 * unat N) (drop (pos (fseek_set f0 (m_offsetStart s0))) (content f0)))"
  let ?final = "\<lparr>offset = of_nat (length (content f0)), numSequences = 0, numSamples = 0\<rparr>"
  from ReadOffsetsTable_Returns [OF ro nb f0(1)] obtain t where
    new: "OffsetsTable_new N (?recs @ [?final]) = Returns t" and len: "length ?recs = unat N"
    and s': "s' = s0\<lparr>m_file := Some (f0\<lparr>pos := length (content f0)\<rparr>), m_offsetsTable := Some t\<rparr>"
    by blast
  have recs: "?recs = disk_records disk (m_offsetStart s') N"
    using s' st f0(2) P by (simp add: disk_records_def fseek_set_of_nat unat_of_nat_pos)
  have le: "unat N \<le> length (?recs @ [?final])" using len by simp
  have shape: "0 \<le>s N \<and> m_diskOffsetsTable t = ?recs @ [?final]"
    using OffsetsTable_new_Returns [OF new le] by simp
  show ?thesis
    using s' nb shape len recs new f0(2) by (intro exI [of _ N] exI [of _ t]) simp
qed

lemma unat_succ_less: "(c :: size_t) < n \<Longrightarrow> unat (c + 1) = Suc (unat c)"
proof -
  assume a: "c < n"
  have lt: "unat c < unat n" using a by (simp add: word_less_nat_alt)
  have "unat n < 2 ^ 64" using unsigned_less [of n] by simp
  with lt have "unat c + 1 < 2 ^ 64" by simp
  then show ?thesis by (simp add: unat_word_ariths)
qed

lemma unat_nonneg_bound:
  assumes nn: "0 \<le>s (N :: int64_t)"
  shows "unat N < 2 ^ 63"
proof -
  have "sint N < 2 ^ 63" using sint_lt [of N] by simp
  then have "int (unat N) < 2 ^ 63" by (simp only: sint_nonneg [OF nn])
  then have "int (unat N) < int (2 ^ 63)" by simp
  then show ?thesis by (simp only: of_nat_less_iff)
qed

lemma GetChunk_null_table: "m_offsetsTable s = None \<Longrightarrow> GetChunk mem chunkId s = (Undefined, s)"
  by (simp add: GetChunk_def ReadChunk_def prog_defs)

lemma Initialized_accessors:
  assumes init: "Initialized s" and nb: "m_numBatches s = Some N" and tb: "m_offsetsTable s = Some t"
    and lt: "chunkId < N"
  shows "GetOffset t chunkId = Some (offset (m_diskOffsetsTable t ! unat chunkId))"
    and "GetNumSequences t chunkId = Some (numSequences (m_diskOffsetsTable t ! unat chunkId))"
    and "GetNumSamples t chunkId = Some (numSamples (m_diskOffsetsTable t ! unat chunkId))"
    and "GetStartIndex t chunkId = Some (m_startIndex t ! unat chunkId)"
    and "GetChunkSize t chunkId = Some (offset (m_diskOffsetsTable t ! Suc (unat chunkId))
                                        - offset (m_diskOffsetsTable t ! unat chunkId))"
proof -
  have l: "length (m_diskOffsetsTable t) = unat N + 1" "length (m_startIndex t) = unat N"
    using init nb tb by (simp_all add: Initialized_def)
  have u: "unat chunkId < unat N" using lt by (simp add: word_less_nat_alt)
  have s: "unat (chunkId + 1) = Suc (unat chunkId)" using lt by (rule unat_succ_less)
  show "GetOffset t chunkId = Some (offset (m_diskOffsetsTable t ! unat chunkId))"
    using l u by (simp add: GetOffset_def)
  show "GetNumSequences t chunkId = Some (numSequences (m_diskOffsetsTable t ! unat chunkId))"
    using l u by (simp add: GetNumSequences_def)
  show "GetNumSamples t chunkId = Some (numSamples (m_diskOffsetsTable t ! unat chunkId))"
    using l u by (simp add: GetNumSamples_def)
  show "GetStartIndex t chunkId = Some (m_startIndex t ! unat chunkId)"
    using l u by (simp add: GetStartIndex_def)
  show "GetChunkSize t chunkId = Some (offset (m_diskOffsetsTable t ! Suc (unat chunkId))
                                        - offset (m_diskOffsetsTable t ! unat chunkId))"
    using l u s by (simp add: GetChunkSize_def)
qed

lemma GetChunk_valid:
  assumes tb: "m_offsetsTable s = Some t" and mf: "m_file s = Some f"
    and off: "GetOffset t chunkId = Some off" and sz: "GetChunkSize t chunkId = Some chunkSize"
    and si: "GetStartIndex t chunkId = Some startIndex" and ns: "GetNumSequences t chunkId = Some n"
    and gr: "grants mem (unat chunkSize)"
  shows "GetChunk mem chunkId s =
     (Returns (BinaryDataChunk chunkId startIndex n
        (take (unat chunkSize) (drop (pos (fseek_set f (m_dataStart s + off))) (content f))
         @ replicate (unat chunkSize
                      - length (take (unat chunkSize) (drop (pos (fseek_set f (m_dataStart s + off))) (content f)))) 0)
        (m_deserializers s)),
      s\<lparr>m_file := Some (snd (fread (fseek_set f (m_dataStart s + off)) (unat chunkSize)))\<rparr>)"
proof -
  have cont: "content (fseek_set f p) = content f" for p by (simp add: fseek_set_def)
  show ?thesis
    using tb mf off sz si ns gr
    by (simp add: GetChunk_def ReadChunk_def allocate_def prog_defs fread_def Let_def cont)
qed

lemma GetChunk_not_granted:
  assumes tb: "m_offsetsTable s = Some t" and mf: "m_file s = Some f"
    and off: "GetOffset t chunkId = Some off" and sz: "GetChunkSize t chunkId = Some chunkSize"
    and gr: "\<not> grants mem (unat chunkSize)"
  shows "GetChunk mem chunkId s =
     (Throws std_bad_alloc, s\<lparr>m_file := Some (fseek_set f (m_dataStart s + off))\<rparr>)"
  using tb mf off sz gr
  by (simp add: GetChunk_def ReadChunk_def allocate_def prog_defs)

lemma GetChunk_out_of_range:
  assumes init: "Initialized s" and nb: "m_numBatches s = Some N" and ge: "N \<le> chunkId"
  shows "fst (GetChunk mem chunkId s) = Undefined"
proof -
  from init nb obtain t f where tb: "m_offsetsTable s = Some t" and mf: "m_file s = Some f"
    and l: "length (m_diskOffsetsTable t) = unat N + 1" and nn: "0 \<le>s N"
    by (auto simp: Initialized_def split: option.splits)
  have u: "unat N \<le> unat chunkId" using ge by (simp add: word_le_nat_alt)
  have bound: "unat N < 2 ^ 63" using nn by (rule unat_nonneg_bound)
  have none: "GetChunkSize t chunkId = None"
  proof (cases "unat chunkId = unat N")
    case True
    have "unat (N + 1) = unat N + 1" using bound by (simp add: unat_word_ariths)
    moreover have "chunkId = N" using True by (simp add: word_unat_eq_iff)
    ultimately show ?thesis using l by (simp add: GetChunkSize_def)
  next
    case False
    then show ?thesis using u l by (simp add: GetChunkSize_def)
  qed
  show ?thesis
    using tb mf none
    by (simp add: GetChunk_def ReadChunk_def prog_defs split: option.splits)
qed

lemma GetChunkDescriptions_loop_map:
  "0 \<le>s c \<Longrightarrow> 0 \<le>s N \<Longrightarrow> unat c \<le> unat N \<Longrightarrow> unat N \<le> length (m_diskOffsetsTable t) \<Longrightarrow>
   GetChunkDescriptions_loop (Some t) N c result =
     Returns (result @ map (\<lambda>i. ChunkDescription (of_nat i) (numSamples (m_diskOffsetsTable t ! i))
                                   (numSequences (m_diskOffsetsTable t ! i))) [unat c..<unat N])"
proof (induction "Some t" N c result rule: GetChunkDescriptions_loop.induct)
  case (1 N c result)
  show ?case
  proof (cases "c <s N")
    case True
    then have lt: "unat c < unat N" using 1 by (simp add: sless_unat)
    have suc: "unat (c + 1) = Suc (unat c)" using 1 True by (simp add: unat_succ_sless)
    have nn: "0 \<le>s c + 1" using 1 True by (simp add: succ_nonneg)
    have a1: "GetNumSamples t c = Some (numSamples (m_diskOffsetsTable t ! unat c))"
      using lt 1 by (simp add: GetNumSamples_def)
    have a2: "GetNumSequences t c = Some (numSequences (m_diskOffsetsTable t ! unat c))"
      using lt 1 by (simp add: GetNumSequences_def)
    have ih: "GetChunkDescriptions_loop (Some t) N (c + 1)
                (result @ [ChunkDescription c (numSamples (m_diskOffsetsTable t ! unat c))
                                             (numSequences (m_diskOffsetsTable t ! unat c))])
        = Returns ((result @ [ChunkDescription c (numSamples (m_diskOffsetsTable t ! unat c))
                                                (numSequences (m_diskOffsetsTable t ! unat c))])
            @ map (\<lambda>i. ChunkDescription (of_nat i) (numSamples (m_diskOffsetsTable t ! i))
                                   (numSequences (m_diskOffsetsTable t ! i))) [unat (c + 1)..<unat N])"
      using "1.hyps" [OF True refl a1 a2 nn] 1 lt suc by simp
    have upt: "[unat c..<unat N] = unat c # [Suc (unat c)..<unat N]"
      using lt by (simp add: upt_conv_Cons)
    show ?thesis
      using True a1 a2 ih suc upt by (subst GetChunkDescriptions_loop.simps) simp
  next
    case False
    then have "unat c = unat N" using 1 by (simp add: sless_unat)
    then show ?thesis using False by (subst GetChunkDescriptions_loop.simps) simp
  qed
qed

lemma GetChunkDescriptions_Initialized:
  assumes init: "Initialized s" and nb: "m_numBatches s = Some N" and tb: "m_offsetsTable s = Some t"
  shows "GetChunkDescriptions ndebug s =
     (Returns (map (\<lambda>i. ChunkDescription (of_nat i) (numSamples (m_diskOffsetsTable t ! i))
                                   (numSequences (m_diskOffsetsTable t ! i))) [0..<unat N]), s)"
proof -
  have nn: "0 \<le>s N" and l: "unat N \<le> length (m_diskOffsetsTable t)"
    using init nb tb by (simp_all add: Initialized_def)
  have z: "0 \<le>s (0 :: int64_t)" by (simp only: word_sle_eq sint_0)
  have "GetChunkDescriptions_loop (Some t) N 0 [] =
     Returns ([] @ map (\<lambda>i. ChunkDescription (of_nat i) (numSamples (m_diskOffsetsTable t ! i))
                                   (numSequences (m_diskOffsetsTable t ! i))) [unat (0 :: int64_t)..<unat N])"
    using z nn l by (intro GetChunkDescriptions_loop_map) simp_all
  moreover have "\<not> N <s 0" using nn by (simp only: word_sle_eq word_sless_alt sint_0)
  ultimately show ?thesis
    using nb tb by (simp add: GetChunkDescriptions_def prog_defs)
qed

lemma max_numSamples_Max:
  "max_numSamples a temp = Max (insert a (m_numberOfSamples ` set temp))"
proof (induction temp arbitrary: a)
  case Nil
  then show ?case by simp
next
  case (Cons x temp)
  have "Max (insert (max a (m_numberOfSamples x)) (m_numberOfSamples ` set temp))
      = Max (insert a (insert (m_numberOfSamples x) (m_numberOfSamples ` set temp)))"
    by (cases "set temp = {}") (simp_all add: max.assoc)
  then show ?case using Cons by simp
qed

lemma GetSequencesForChunk_loop_prefix:
  "\<exists>news. snd (GetSequencesForChunk_loop g chunk startId chunkId n c result) = result @ news"
proof (induction g chunk startId chunkId n c result rule: GetSequencesForChunk_loop.induct)
  case (1 g chunk startId chunkId n c result)
  show ?case
  proof (cases "c < n")
    case True
    show ?thesis
    proof (cases "g chunk (startId + c)")
      case (Returns temp)
      from "1.IH" [OF True Returns] obtain news where
        "snd (GetSequencesForChunk_loop g chunk startId chunkId n (c + 1)
          (result @ [SequenceDescription (startId + c) (max_numSamples 0 temp) chunkId True (startId + c, 0)]))
         = (result @ [SequenceDescription (startId + c) (max_numSamples 0 temp) chunkId True (startId + c, 0)]) @ news"
        by blast
      then show ?thesis using True Returns by (subst GetSequencesForChunk_loop.simps) simp
    next
      case (Throws e)
      then show ?thesis using True by (subst GetSequencesForChunk_loop.simps) simp
    next
      case AssertFailed
      then show ?thesis using True by (subst GetSequencesForChunk_loop.simps) simp
    next
      case Undefined
      then show ?thesis using True by (subst GetSequencesForChunk_loop.simps) simp
    qed
  next
    case False
    then show ?thesis by (subst GetSequencesForChunk_loop.simps) simp
  qed
qed

lemma GetSequencesForChunk_loop_map:
  "c \<le> n \<Longrightarrow> (\<forall>k. unat c \<le> k \<and> k < unat n \<longrightarrow> g chunk (startId + of_nat k) = Returns (temp k)) \<Longrightarrow>
   GetSequencesForChunk_loop g chunk startId chunkId n c result =
     (Returns (), result @ map (\<lambda>k. SequenceDescription (startId + of_nat k) (max_numSamples 0 (temp k))
                                        chunkId True (startId + of_nat k, 0)) [unat c..<unat n])"
proof (induction g chunk startId chunkId n c result rule: GetSequencesForChunk_loop.induct)
  case (1 g chunk startId chunkId n c result)
  show ?case
  proof (cases "c < n")
    case True
    then have lt: "unat c < unat n" by (simp add: word_less_nat_alt)
    have suc: "unat (c + 1) = Suc (unat c)" using True by (rule unat_succ_less)
    have le: "c + 1 \<le> n" using True by (rule inc_le)
    have ret: "g chunk (startId + c) = Returns (temp (unat c))"
    proof -
      have "of_nat (unat c) = c" by simp
      moreover have "g chunk (startId + of_nat (unat c)) = Returns (temp (unat c))"
        using "1.prems"(2) lt by blast
      ultimately show ?thesis by simp
    qed
    have rest: "\<forall>k. unat (c + 1) \<le> k \<and> k < unat n \<longrightarrow> g chunk (startId + of_nat k) = Returns (temp k)"
      using "1.prems"(2) suc by simp
    have ih: "GetSequencesForChunk_loop g chunk startId chunkId n (c + 1)
        (result @ [SequenceDescription (startId + c) (max_numSamples 0 (temp (unat c))) chunkId True (startId + c, 0)])
      = (Returns (), (result @ [SequenceDescription (startId + c) (max_numSamples 0 (temp (unat c))) chunkId True (startId + c, 0)])
           @ map (\<lambda>k. SequenceDescription (startId + of_nat k) (max_numSamples 0 (temp k))
                                        chunkId True (startId + of_nat k, 0)) [unat (c + 1)..<unat n])"
      using "1.IH" [OF True ret le rest] .
    have upt: "[unat c..<unat n] = unat c # [Suc (unat c)..<unat n]"
      using lt by (simp add: upt_conv_Cons)
    show ?thesis
      using True ret ih suc upt by (subst GetSequencesForChunk_loop.simps) simp
  next
    case False
    then have "unat c = unat n" using "1.prems"(1) by (simp add: word_le_nat_alt word_less_nat_alt)
    then show ?thesis using False by (subst GetSequencesForChunk_loop.simps) simp
  qed
qed

lemma unat_scast_nonneg:
  assumes nn: "0 \<le>s (n :: int32_t)"
  shows "unat (scast n :: size_t) = nat (sint n)"
proof -
  have s: "sint n = int (unat n)" using nn by (rule sint_nonneg)
  have "unat n < 2 ^ 32" using unsigned_less [of n] by simp
  then have b: "unat n < 2 ^ 64" by simp
  have "(scast n :: size_t) = of_int (sint n)" by simp
  also have "\<dots> = of_nat (unat n)" by (simp only: s of_int_of_nat_eq)
  finally have "unat (scast n :: size_t) = unat (of_nat (unat n) :: size_t)" by simp
  also have "\<dots> = unat n" using b by (simp add: unsigned_ucast_eq take_bit_nat_eq_self)
  finally show ?thesis using s by simp
qed

lemma GetSequencesForChunk_prefix:
  "\<exists>news. snd (fst (GetSequencesForChunk mem g chunkId result s)) = result @ news"
proof -
  have loop: "\<exists>news. snd (GetSequencesForChunk_loop g chunk startId chunkId n 0 result) = result @ news"
    for chunk startId n
    by (rule GetSequencesForChunk_loop_prefix)
  show ?thesis
    unfolding GetSequencesForChunk_def
    using loop by (auto split: option.splits prod.splits outcome.splits)
qed

lemma GetSequencesForChunk_null_table:
  "m_offsetsTable s = None \<Longrightarrow> GetSequencesForChunk mem g chunkId result s = ((Undefined, result), s)"
  by (simp add: GetSequencesForChunk_def)




lemma GetSequencesForChunk_Returns:
  assumes tb: "m_offsetsTable s = Some t"
    and si: "GetStartIndex t chunkId = Some startId" and ns: "GetNumSequences t chunkId = Some n"
    and nn: "0 \<le>s n" and cap: "grants_capacity mem (unat n)"
    and gc: "GetChunk mem chunkId s = (Returns chunk, s')"
    and dec: "\<forall>k<nat (sint n). g chunk (startId + of_nat k) = Returns (temp k)"
  shows "GetSequencesForChunk mem g chunkId result s =
     ((Returns (), result @ map (\<lambda>k. SequenceDescription (startId + of_nat k) (max_numSamples 0 (temp k))
                                        chunkId True (startId + of_nat k, 0)) [0..<nat (sint n)]), s')"
proof -
  have u: "unat (scast n :: size_t) = nat (sint n)" using nn by (rule unat_scast_nonneg)
  have "GetSequencesForChunk_loop g chunk startId chunkId (scast n) 0 result =
     (Returns (), result @ map (\<lambda>k. SequenceDescription (startId + of_nat k) (max_numSamples 0 (temp k))
                                        chunkId True (startId + of_nat k, 0)) [unat (0 :: size_t)..<unat (scast n :: size_t)])"
    using dec u by (intro GetSequencesForChunk_loop_map) simp_all
  moreover have "\<not> n <s 0" using nn by (simp only: word_sle_eq word_sless_alt sint_0) 
  ultimately show ?thesis
    using tb si ns gc u cap by (simp add: GetSequencesForChunk_def)
qed

section \<open>The example files, evaluated\<close>

lemma replicate_numeral: "replicate (numeral k) x = x # replicate (pred_numeral k) x"
  by (simp add: numeral_eq_Suc)

lemmas eval_defs = upt_conv_Cons replicate_numeral BinaryChunkDeserializer_helper_def BinaryChunkDeserializer_filename_def SetTraceLevel_def
  Initialize_def ReadOffsetsTable_def read_streams.simps read_stream_def
  DenseBinaryDataDeserializer_new_def SparseBinaryDataDeserializer_new_def read_elemType_def resize_def
  resize_m_streams_def resize_m_deserializers_def
  allocate_def grants_def plenty_def GetStorageType.simps GetElementType_def GetSampleLayout_def
  parse_records_def parse_record_def OffsetsTable_new_def Initialize_loop.simps
  prog_defs fread_def fseek_set_def fseek_end_def ftell_def le_word_def
  word_sless_alt word_sle_eq

lemma one_chunk_ctor:
  "BinaryChunkDeserializer_helper plenty False ''data.bin'' 0 Map.empty file_one_chunk = (Returns (), store_one_chunk)"
  by (simp add: eval_defs file_one_chunk_def store_one_chunk_def)

lemma one_chunk_Initialized: "Initialized store_one_chunk"
  by (simp add: Initialized_def store_one_chunk_def word_sle_eq)

lemma truncated_ctor:
  "BinaryChunkDeserializer_helper plenty False ''data.bin'' 0 Map.empty file_truncated = (Returns (), store_truncated)"
  by (simp add: eval_defs file_truncated_def store_truncated_def)

lemma truncated_GetChunk0:
  "fst (GetChunk plenty 0 store_truncated) =
     Returns (BinaryDataChunk 0 0 2 [10, 20, 30, 40, 0, 0, 0, 0] [Some (DenseBinaryDataDeserializer tfloat 1)])"
  by (simp add: store_truncated_def GetChunk_def ReadChunk_def allocate_def grants_def plenty_def prog_defs fseek_set_def fread_def word_sless_alt
      GetOffset_def GetChunkSize_def GetStartIndex_def GetNumSequences_def file_truncated_def
      replicate_numeral)

lemma one_chunk_GetChunk1: "fst (GetChunk plenty 1 store_one_chunk) = Undefined"
  by (simp add: store_one_chunk_def GetChunk_def ReadChunk_def allocate_def grants_def plenty_def prog_defs fseek_set_def word_sless_alt
      GetOffset_def GetChunkSize_def GetStartIndex_def GetNumSequences_def)

lemma one_chunk_GetChunk0:
  "fst (GetChunk plenty 0 store_one_chunk) =
     Returns (BinaryDataChunk 0 0 1 ([10, 20, 30, 40] @ replicate 53 0) [Some (DenseBinaryDataDeserializer tfloat 1)])"
  by (simp add: store_one_chunk_def GetChunk_def ReadChunk_def allocate_def grants_def plenty_def prog_defs fseek_set_def fread_def word_sless_alt
      GetOffset_def GetChunkSize_def GetStartIndex_def GetNumSequences_def file_one_chunk_def)

lemma sint_small: 
  assumes "unat (x :: int64_t) < 2 ^ 63"
  shows "sint x = int (unat x)"
proof -
  have "uint x < 2 ^ 63" using assms by (metis of_nat_less_numeral_power_cancel_iff of_nat_unat)
  moreover have "- (2 ^ 63) \<le> uint x"
    by (rule order_trans [of _ 0]) simp_all
  ultimately have "signed_take_bit 63 (uint x) = uint x"
    by (intro signed_take_bit_int_eq_self)
  moreover have "sint x = signed_take_bit 63 (uint x)" using sint_uint [of x] by simp
  ultimately show ?thesis by (simp only: uint_nat)
qed

lemma sle_small:
  assumes "unat (x :: int64_t) < 2 ^ 63" and "unat y < 2 ^ 63"
  shows "x \<le>s y \<longleftrightarrow> unat x \<le> unat y"
  using sint_small [OF assms(1)] sint_small [OF assms(2)]
  by (simp only: word_sle_eq of_nat_le_iff)

lemma uint_diff_sle:
  assumes "(a :: int64_t) \<le>s b"
  shows "uint (b - a) = sint b - sint a"
proof -
  have le: "sint a \<le> sint b" using assms by (simp only: word_sle_eq)
  have "sint b < 2 ^ 63" using sint_lt [of b] by simp
  moreover have "- (2 ^ 63) \<le> sint a" using sint_ge [of a] by simp
  ultimately have ub: "sint b - sint a < 2 ^ 64" by simp
  have "b - a = word_of_int (sint b) - word_of_int (sint a)" by simp
  also have "\<dots> = word_of_int (sint b - sint a)" by (simp only: of_int_diff)
  finally have eq: "b - a = word_of_int (sint b - sint a)" .
  have "uint (word_of_int (sint b - sint a) :: int64_t) = take_bit 64 (sint b - sint a)"
    using uint_word_of_int_eq [of "sint b - sint a", where 'a = 64] by simp
  then have "uint (b - a) = take_bit 64 (sint b - sint a)" by (simp only: eq)
  also have "\<dots> = sint b - sint a" using le ub by (intro take_bit_int_eq_self) simp_all
  finally show ?thesis .
qed

lemma starts_bounds:
  "\<forall>r\<in>set rs. 0 \<le>s numSequences r \<Longrightarrow>
   unat seen + sum_list (map (\<lambda>r. nat (sint (numSequences r))) rs) < 2 ^ 63 \<Longrightarrow>
   (\<forall>x\<in>set (starts seen rs). unat seen \<le> unat x \<and> unat x < 2 ^ 63)
   \<and> sorted (map unat (starts seen rs))"
proof (induction rs arbitrary: seen)
  case Nil
  then show ?case by simp
next
  case (Cons r rs)
  let ?c = "nat (sint (numSequences r))"
  let ?seen' = "seen + scast (numSequences r)"
  have nn: "0 \<le>s numSequences r" using Cons.prems(1) by simp
  have sc: "unat (scast (numSequences r) :: size_t) = ?c" using nn by (rule unat_scast_nonneg)
  have small: "unat seen + ?c < 2 ^ 63" using Cons.prems(2) by simp
  then have "unat seen + ?c < 2 ^ 64" by simp
  then have u: "unat ?seen' = unat seen + ?c" using sc by (simp add: unat_word_ariths)
  have rest: "unat ?seen' + sum_list (map (\<lambda>r. nat (sint (numSequences r))) rs) < 2 ^ 63"
    using Cons.prems(2) u by simp
  have all: "\<forall>r\<in>set rs. 0 \<le>s numSequences r" using Cons.prems(1) by simp
  note ih = Cons.IH [OF all rest]
  have b: "\<forall>x\<in>set (starts ?seen' rs). unat seen \<le> unat x \<and> unat x < 2 ^ 63"
    using ih u by auto
  have s0: "unat seen < 2 ^ 63" using small by simp
  show ?case using ih b s0 by simp
qed

lemma starts_mono:
  assumes "\<forall>r\<in>set rs. 0 \<le>s numSequences r"
    and "sum_list (map (\<lambda>r. nat (sint (numSequences r))) rs) < 2 ^ 63"
    and "i \<le> j" and "j < Suc (length rs)"
  shows "(0 # starts 0 rs) ! i \<le>s (0 # starts 0 rs) ! j"
proof -
  let ?xs = "0 # starts 0 rs"
  have b: "(\<forall>x\<in>set (starts 0 rs). unat x < 2 ^ 63) \<and> sorted (map unat (starts 0 rs))"
    using starts_bounds [OF assms(1), of 0] assms(2) by simp
  have len: "length ?xs = Suc (length rs)" by (simp add: length_starts)
  have small: "unat x < 2 ^ 63" if "x \<in> set ?xs" for x using that b by auto
  have srt: "sorted (map unat ?xs)" using b by simp
  have i: "i < length ?xs" and j: "j < length ?xs" using assms(3,4) len by simp_all
  have "map unat ?xs ! i \<le> map unat ?xs ! j"
    using srt assms(3) j by (intro sorted_nth_mono) simp_all
  then have "unat (?xs ! i) \<le> unat (?xs ! j)" using i j by (simp only: nth_map)
  moreover have "unat (?xs ! i) < 2 ^ 63" using small i by (meson nth_mem)
  moreover have "unat (?xs ! j) < 2 ^ 63" using small j by (meson nth_mem)
  ultimately show ?thesis by (simp only: sle_small)
qed

lemma GetChunk_keeps_table: "m_offsetsTable (snd (GetChunk mem chunkId s)) = m_offsetsTable s"
  by (auto simp: GetChunk_def ReadChunk_def allocate_def prog_defs fread_def Let_def
      split: option.splits prod.splits outcome.splits)

lemma GetChunkDescriptions_keeps_state: "snd (GetChunkDescriptions ndebug s) = s"
  by (auto simp: GetChunkDescriptions_def prog_defs split: option.splits)

lemma GetSequencesForChunk_keeps_table:
  "m_offsetsTable (snd (GetSequencesForChunk mem g chunkId result s)) = m_offsetsTable s"
proof -
  have "snd (GetSequencesForChunk mem g chunkId result s) = s
      \<or> snd (GetSequencesForChunk mem g chunkId result s) = snd (GetChunk mem chunkId s)"
    by (auto simp: GetSequencesForChunk_def split: option.splits prod.splits outcome.splits)
  then show ?thesis using GetChunk_keeps_table [of mem chunkId s] by auto
qed

lemma two_chunks_ctor:
  "BinaryChunkDeserializer_helper plenty False ''data.bin'' 0 Map.empty file_two_chunks = (Returns (), store_two_chunks)"
  by (simp add: eval_defs file_two_chunks_def file_truncated_def store_two_chunks_def table_two_chunks_def)

lemma offset_past_end_ctor:
  "BinaryChunkDeserializer_helper plenty False ''data.bin'' 0 Map.empty file_offset_past_end
     = (Returns (), store_offset_past_end)"
  by (simp add: eval_defs file_offset_past_end_def file_one_chunk_def store_offset_past_end_def
      table_offset_past_end_def)

lemma negative_count_ctor:
  "\<exists>s. BinaryChunkDeserializer_helper plenty False ''data.bin'' 0 Map.empty file_negative_count = (Returns (), s)
     \<and> m_offsetsTable s = Some table_negative_count \<and> m_offsetStart s = 37 \<and> m_numBatches s = Some 3"
  by (simp add: eval_defs file_negative_count_def table_negative_count_def)

lemma two_chunks_records:
  "disk_records file_two_chunks 37 2 = [\<lparr>offset = 0, numSequences = 2, numSamples = 2\<rparr>,
                                         \<lparr>offset = 8, numSequences = 1, numSamples = 1\<rparr>]"
  by (simp add: disk_records_def parse_records_def parse_record_def le_word_def upt_conv_Cons
      file_two_chunks_def file_truncated_def)

lemma sint_of_nat_small: "L < 2 ^ 63 \<Longrightarrow> sint (of_nat L :: int64_t) = int L"
  using sint_small [of "of_nat L"] by (simp add: unat_of_nat_pos)

lemma loaded_start_index:
  assumes new: "OffsetsTable_new N (recs @ [final]) = Returns t" and len: "length recs = unat N"
  shows "m_startIndex t = (if N = 0 then [] else 0 # starts 0 (tl recs))"
proof (cases "N = 0")
  case True
  then show ?thesis using OffsetsTable_new_Returns [OF new] len by simp
next
  case False
  then have pos: "0 < unat N" by (simp add: unat_gt_0)
  then have ne: "recs \<noteq> []" using len by auto
  have "take (unat N - 1) (drop 1 (recs @ [final])) = tl recs"
    using ne len by (cases recs) simp_all
  then show ?thesis using OffsetsTable_new_Returns [OF new] len False by simp
qed

lemma sum_list_tl_le:
  "sum_list (map f (tl xs)) \<le> sum_list (map f xs)" for f :: "'a \<Rightarrow> nat"
  by (cases xs) simp_all

lemma GetChunk_keeps_Initialized: "Initialized s \<Longrightarrow> Initialized (snd (GetChunk mem chunkId s))"
proof -
  assume init: "Initialized s"
  have "snd (GetChunk mem chunkId s) = s \<or> (\<exists>f. snd (GetChunk mem chunkId s) = s\<lparr>m_file := Some f\<rparr>)"
    by (auto simp: GetChunk_def ReadChunk_def allocate_def prog_defs fread_def Let_def
        split: option.splits prod.splits outcome.splits)
  then show ?thesis using init by (auto simp: Initialized_def split: option.splits)
qed

lemma unat_minus_43: "unat (- 43 :: int64_t) = 2 ^ 64 - 43"
proof -
  have "(- 43 :: int64_t) = of_nat (2 ^ 64 - 43)" by simp
  then have "unat (- 43 :: int64_t) = unat (of_nat (2 ^ 64 - 43) :: int64_t)" by (simp only:)
  also have "\<dots> = 2 ^ 64 - 43" by (simp only: unsigned_of_nat) (simp add: take_bit_nat_eq_self)
  finally show ?thesis .
qed


lemma offset_past_end_never_granted:
  "fst (GetSequencesForChunk mem g 0 result store_offset_past_end) = (Throws std_bad_alloc, result)"
  by (simp add: GetSequencesForChunk_def store_offset_past_end_def table_offset_past_end_def
      GetNumSequences_def GetOffset_def GetChunkSize_def GetChunk_def ReadChunk_def allocate_def
      grants_def prog_defs fseek_set_def word_sless_alt unat_minus_43)

section \<open>Start indices\<close>

text \<open>
  Claim C1 says that the start index of chunk \<open>i > 0\<close> is the start index of chunk
  \<open>i - 1\<close> plus its sequence count, and that chunk 0 starts at 0. The loop of
  \<open>OffsetsTable::Initialize\<close> begins at \<open>c = 1\<close> and adds the count of chunk \<open>c\<close> after
  storing the sum, so the count of chunk 0 is never added. For the array of two chunks
  of 3 and 5 sequences, chunk 1 starts at 0 and not at 3; and the table loaded from the
  file of two chunks of 2 and 1 sequences has chunk 1 start at 0 and not at 2.
\<close>

theorem C1_start_index_omits_chunk0:
  "(\<exists>t. OffsetsTable_new 2 two_chunks = Returns t
      \<and> GetNumSequences t 0 = Some 3 \<and> GetStartIndex t 0 = Some 0 \<and> GetStartIndex t 1 = Some 0)
   \<and> BinaryChunkDeserializer_helper plenty False ''data.bin'' 0 Map.empty file_two_chunks
         = (Returns (), store_two_chunks)
   \<and> m_offsetsTable store_two_chunks = Some table_two_chunks
   \<and> GetNumSequences table_two_chunks 0 = Some 2
   \<and> GetStartIndex table_two_chunks 0 = Some 0 \<and> GetStartIndex table_two_chunks 1 = Some 0"
proof -
  have "\<exists>t. OffsetsTable_new 2 two_chunks = Returns t
      \<and> GetNumSequences t 0 = Some 3 \<and> GetStartIndex t 0 = Some 0 \<and> GetStartIndex t 1 = Some 0"
    by (simp add: OffsetsTable_new_def two_chunks_def Initialize_loop.simps word_sless_alt
        GetNumSequences_def GetStartIndex_def)
  moreover have "m_offsetsTable store_two_chunks = Some table_two_chunks
      \<and> GetNumSequences table_two_chunks 0 = Some 2
      \<and> GetStartIndex table_two_chunks 0 = Some 0 \<and> GetStartIndex table_two_chunks 1 = Some 0"
    by (simp add: store_two_chunks_def table_two_chunks_def GetNumSequences_def GetStartIndex_def)
  ultimately show ?thesis using two_chunks_ctor by blast
qed

section \<open>Chunk ids out of range\<close>

text \<open>
  Claim C2 says that \<open>GetChunk\<close> validates \<open>chunkId < N\<close> and fails with an
  \<open>OutOfRange\<close> error for every \<open>chunkId \<ge> N\<close>. The code has no such check: on
  the one-chunk file, \<open>GetChunk(1)\<close> raises nothing and reads the offsets table out of
  bounds.
\<close>

theorem C2_counterexample:
  "BinaryChunkDeserializer_helper plenty False ''data.bin'' 0 Map.empty file_one_chunk = (Returns (), store_one_chunk)
   \<and> m_numBatches store_one_chunk = Some 1
   \<and> fst (GetChunk plenty 1 store_one_chunk) = Undefined"
  using one_chunk_ctor one_chunk_GetChunk1 by (simp add: store_one_chunk_def)

text \<open>
  Claim C2, amended: \<open>GetChunk\<close> does not validate \<open>chunkId < N\<close>. On an initialized store
  over an \<open>N\<close>-chunk file, for every \<open>chunkId \<ge> N\<close> (in particular \<open>chunkId = N\<close>) it
  fails with no \<open>OutOfRange\<close> error: whatever the allocator grants, it indexes the offsets
  table out of bounds (undefined behaviour).
\<close>

theorem C2_GetChunk_unchecked:
  assumes init: "Initialized s" and nb: "m_numBatches s = Some N" and ge: "N \<le> chunkId"
  shows "fst (GetChunk mem chunkId s) = Undefined"
  using init nb ge by (rule GetChunk_out_of_range)

theorem C2_witness:
  "Initialized store_two_chunks \<and> m_numBatches store_two_chunks = Some 2 \<and> (2 :: size_t) \<le> 2
   \<and> fst (GetChunk plenty 2 store_two_chunks) = Undefined"
proof -
  have i: "Initialized store_two_chunks"
    by (simp add: Initialized_def store_two_chunks_def table_two_chunks_def word_sle_eq)
  have nb: "m_numBatches store_two_chunks = Some 2" by (simp add: store_two_chunks_def)
  have ge: "(2 :: size_t) \<le> 2" by simp
  show ?thesis
    using C2_GetChunk_unchecked [OF i nb ge, of plenty] i nb by simp
qed

section \<open>Short reads\<close>

text \<open>
  Claim C3 says that \<open>GetChunk\<close> fails with a \<open>TruncatedRead\<close> error when the file holds
  fewer bytes than the chunk size at the chunk's start. \<open>ReadChunk\<close> does not look at what
  \<open>fread\<close> returns: on the file cut off after four of the eight bytes of chunk 0,
  \<open>GetChunk(0)\<close> returns a buffer of eight bytes, the last four zero.
\<close>

theorem C3_counterexample:
  "BinaryChunkDeserializer_helper plenty False ''data.bin'' 0 Map.empty file_truncated = (Returns (), store_truncated)
   \<and> length file_truncated - unat (m_dataStart store_truncated) = 4
   \<and> fst (GetChunk plenty 0 store_truncated)
       = Returns (BinaryDataChunk 0 0 2 [10, 20, 30, 40, 0, 0, 0, 0] [Some (DenseBinaryDataDeserializer tfloat 1)])"
  using truncated_ctor truncated_GetChunk0 by (simp add: store_truncated_def file_truncated_def)

text \<open>
  Claim C3, amended: for every valid \<open>chunkId\<close>, \<open>GetChunk\<close> fails with no \<open>TruncatedRead\<close>
  error when the file holds fewer than \<open>GetChunkSize(chunkId)\<close> bytes at the position it
  seeks to. When the allocator grants the \<open>GetChunkSize(chunkId)\<close> bytes of the buffer, it
  returns the chunk made of \<open>chunkId\<close>, \<open>startIndex[chunkId]\<close>, \<open>numSequences[chunkId]\<close>, the
  codec list and a buffer of exactly \<open>GetChunkSize(chunkId)\<close> bytes, whose front is the
  bytes the file holds there (as many as there are, up to the chunk size) and whose rest
  is zero, and leaves the handle behind the bytes read. When the allocator does not
  grant them (as for every size of \<open>2^63\<close> or more), \<open>std::bad_alloc\<close> is thrown, with the
  handle at the position sought.
\<close>

theorem C3_GetChunk_zero_fills:
  assumes init: "Initialized s" and nb: "m_numBatches s = Some N" and lt: "chunkId < N"
    and tb: "m_offsetsTable s = Some t" and mf: "m_file s = Some f"
  shows "\<exists>off chunkSize startIndex n.
           GetOffset t chunkId = Some off \<and> GetChunkSize t chunkId = Some chunkSize
         \<and> GetStartIndex t chunkId = Some startIndex \<and> GetNumSequences t chunkId = Some n
         \<and> (grants mem (unat chunkSize) \<longrightarrow>
              (\<exists>buffer.
                 GetChunk mem chunkId s =
                   (Returns (BinaryDataChunk chunkId startIndex n buffer (m_deserializers s)),
                    s\<lparr>m_file := Some (snd (fread (fseek_set f (m_dataStart s + off)) (unat chunkSize)))\<rparr>)
               \<and> length buffer = unat chunkSize
               \<and> buffer =
                   take (unat chunkSize) (drop (pos (fseek_set f (m_dataStart s + off))) (content f))
                   @ replicate (unat chunkSize
                       - length (take (unat chunkSize) (drop (pos (fseek_set f (m_dataStart s + off))) (content f)))) 0))
         \<and> (\<not> grants mem (unat chunkSize) \<longrightarrow>
              GetChunk mem chunkId s =
                (Throws std_bad_alloc, s\<lparr>m_file := Some (fseek_set f (m_dataStart s + off))\<rparr>))"
proof -
  note acc = Initialized_accessors [OF init nb tb lt]
  let ?off = "offset (m_diskOffsetsTable t ! unat chunkId)"
  let ?sz = "offset (m_diskOffsetsTable t ! Suc (unat chunkId)) - offset (m_diskOffsetsTable t ! unat chunkId)"
  let ?avail = "take (unat ?sz) (drop (pos (fseek_set f (m_dataStart s + ?off))) (content f))"
  have run: "GetChunk mem chunkId s =
     (Returns (BinaryDataChunk chunkId (m_startIndex t ! unat chunkId)
        (numSequences (m_diskOffsetsTable t ! unat chunkId))
        (?avail @ replicate (unat ?sz - length ?avail) 0) (m_deserializers s)),
      s\<lparr>m_file := Some (snd (fread (fseek_set f (m_dataStart s + ?off)) (unat ?sz)))\<rparr>)"
    if "grants mem (unat ?sz)"
    using GetChunk_valid [OF tb mf acc(1) acc(5) acc(4) acc(2) that] .
  have len: "length (?avail @ replicate (unat ?sz - length ?avail) 0) = unat ?sz" by simp
  have fail: "GetChunk mem chunkId s =
     (Throws std_bad_alloc, s\<lparr>m_file := Some (fseek_set f (m_dataStart s + ?off))\<rparr>)"
    if "\<not> grants mem (unat ?sz)"
    using GetChunk_not_granted [OF tb mf acc(1) acc(5) that] .
  have granted: "\<exists>buffer.
         GetChunk mem chunkId s =
           (Returns (BinaryDataChunk chunkId (m_startIndex t ! unat chunkId)
              (numSequences (m_diskOffsetsTable t ! unat chunkId)) buffer (m_deserializers s)),
            s\<lparr>m_file := Some (snd (fread (fseek_set f (m_dataStart s + ?off)) (unat ?sz)))\<rparr>)
       \<and> length buffer = unat ?sz
       \<and> buffer = ?avail @ replicate (unat ?sz - length ?avail) 0"
    if g: "grants mem (unat ?sz)"
    using run [OF g] len by (intro exI [of _ "?avail @ replicate (unat ?sz - length ?avail) 0"]) blast
  show ?thesis
    using acc(1) acc(5) acc(4) acc(2) granted fail
    by (intro exI [of _ ?off] exI [of _ ?sz] exI [of _ "m_startIndex t ! unat chunkId"]
        exI [of _ "numSequences (m_diskOffsetsTable t ! unat chunkId)"]) blast
qed

theorem C3_witness:
  "Initialized store_truncated \<and> (0 :: size_t) < 2 \<and> grants plenty 8
   \<and> GetChunkSize table_truncated 0 = Some 8
   \<and> GetChunk plenty 0 store_truncated =
        (Returns (BinaryDataChunk 0 0 2 [10, 20, 30, 40, 0, 0, 0, 0] [Some (DenseBinaryDataDeserializer tfloat 1)]),
         store_truncated)"
proof -
  have i: "Initialized store_truncated"
    by (simp add: Initialized_def store_truncated_def word_sle_eq)
  have nb: "m_numBatches store_truncated = Some 2" by (simp add: store_truncated_def)
  have lt: "(0 :: size_t) < 2" by simp
  have tb: "m_offsetsTable store_truncated = Some table_truncated"
    by (simp add: store_truncated_def table_truncated_def)
  have mf: "m_file store_truncated = Some \<lparr>content = file_truncated, pos = 73\<rparr>"
    by (simp add: store_truncated_def)
  have g: "grants plenty 8" by (simp add: grants_def plenty_def)
  have sz: "GetChunkSize table_truncated 0 = Some 8"
    by (simp add: GetChunkSize_def table_truncated_def)
  from C3_GetChunk_zero_fills [OF i nb lt tb mf, of plenty] obtain off chunkSize startIndex n where
    o: "GetOffset table_truncated 0 = Some off" and c: "GetChunkSize table_truncated 0 = Some chunkSize"
    and si: "GetStartIndex table_truncated 0 = Some startIndex"
    and ns: "GetNumSequences table_truncated 0 = Some n"
    and run: "grants plenty (unat chunkSize) \<longrightarrow>
              (\<exists>buffer.
                 GetChunk plenty 0 store_truncated =
                   (Returns (BinaryDataChunk 0 startIndex n buffer (m_deserializers store_truncated)),
                    store_truncated\<lparr>m_file := Some (snd (fread (fseek_set \<lparr>content = file_truncated, pos = 73\<rparr>
                        (m_dataStart store_truncated + off)) (unat chunkSize)))\<rparr>)
               \<and> length buffer = unat chunkSize
               \<and> buffer =
                   take (unat chunkSize)
                      (drop (pos (fseek_set \<lparr>content = file_truncated, pos = 73\<rparr> (m_dataStart store_truncated + off)))
                         (content \<lparr>content = file_truncated, pos = 73\<rparr>))
                   @ replicate (unat chunkSize
                       - length (take (unat chunkSize)
                           (drop (pos (fseek_set \<lparr>content = file_truncated, pos = 73\<rparr> (m_dataStart store_truncated + off)))
                              (content \<lparr>content = file_truncated, pos = 73\<rparr>)))) 0)"
    by blast
  have off: "off = 0" using o by (simp add: GetOffset_def table_truncated_def)
  have chunkSize: "chunkSize = 8" using c sz by simp
  have startIndex: "startIndex = 0" using si by (simp add: GetStartIndex_def table_truncated_def)
  have n: "n = 2" using ns by (simp add: GetNumSequences_def table_truncated_def)
  have "GetChunk plenty 0 store_truncated =
        (Returns (BinaryDataChunk 0 0 2 [10, 20, 30, 40, 0, 0, 0, 0] [Some (DenseBinaryDataDeserializer tfloat 1)]),
         store_truncated)"
    using run g unfolding off chunkSize startIndex n
    by (auto simp: store_truncated_def file_truncated_def fseek_set_def fread_def word_sless_alt
        replicate_numeral Let_def)
  then show ?thesis using i lt g sz by simp
qed

section \<open>The size of the last chunk\<close>

text \<open>
  Claim C4 says that the record synthesized at the end of the table makes
  \<open>GetChunkSize(N-1)\<close> the number of payload bytes of the last chunk, so that
  \<open>GetChunk(N-1)\<close> reads exactly those bytes. \<open>ReadChunk\<close> takes the offsets relative to
  \<open>m_dataStart\<close>, but \<open>ReadOffsetsTable\<close> stores the absolute end of the file in the last
  record: on the one-chunk file, whose payload is the 4 bytes after byte 53,
  the last record holds 57, \<open>GetChunkSize(0)\<close> is 57, and \<open>GetChunk(0)\<close> returns 57 bytes,
  the 4 of the payload and 53 zeros.
\<close>

theorem C4_last_chunk_size_counts_header:
  "BinaryChunkDeserializer_helper plenty False ''data.bin'' 0 Map.empty file_one_chunk = (Returns (), store_one_chunk)
   \<and> m_dataStart store_one_chunk = 53 \<and> length file_one_chunk = 57
   \<and> (\<exists>t. m_offsetsTable store_one_chunk = Some t \<and> GetOffset t 0 = Some 0
          \<and> GetOffset t 1 = Some 57 \<and> GetChunkSize t 0 = Some 57)
   \<and> fst (GetChunk plenty 0 store_one_chunk)
       = Returns (BinaryDataChunk 0 0 1 ([10, 20, 30, 40] @ replicate 53 0)
                    [Some (DenseBinaryDataDeserializer tfloat 1)])"
proof -
  have "m_dataStart store_one_chunk = 53 \<and> length file_one_chunk = 57"
    by (simp add: store_one_chunk_def file_one_chunk_def)
  moreover have "\<exists>t. m_offsetsTable store_one_chunk = Some t \<and> GetOffset t 0 = Some 0
          \<and> GetOffset t 1 = Some 57 \<and> GetChunkSize t 0 = Some 57"
    by (simp add: store_one_chunk_def GetOffset_def GetChunkSize_def)
  ultimately show ?thesis using one_chunk_ctor one_chunk_GetChunk0 by simp
qed

section \<open>The version check\<close>

text \<open>
  Claim C5: when the first 8 bytes of the file encode a version other than 1, \<open>Initialize\<close>
  fails with the version-mismatch error (the \<open>LogicError\<close> of the version check) having
  read nothing further (the handle stands at byte 8), and the store stays
  non-operational: nothing but \<open>m_file\<close> has changed, so the object the constructor was
  building has no offsets table.
\<close>

theorem C5_version_mismatch:
  assumes "8 \<le> length disk" and "le_word (take 8 disk) \<noteq> (1 :: int64_t)"
  shows "(m_versionNumber s = 1 \<longrightarrow>
            Initialize mem ndebug rename disk s = (Throws LogicError, s\<lparr>m_file := Some \<lparr>content = disk, pos = 8\<rparr>\<rparr>))
       \<and> BinaryChunkDeserializer_helper mem ndebug filename traceLevel rename disk =
            (Throws LogicError,
             (BinaryChunkDeserializer_filename filename)
               \<lparr>m_traceLevel := traceLevel, m_file := Some \<lparr>content = disk, pos = 8\<rparr>\<rparr>)
       \<and> m_offsetsTable (snd (BinaryChunkDeserializer_helper mem ndebug filename traceLevel rename disk)) = None"
proof -
  have init: "Initialize mem ndebug rename disk s = (Throws LogicError, s\<lparr>m_file := Some \<lparr>content = disk, pos = 8\<rparr>\<rparr>)"
    if "m_versionNumber s = 1" for s
    using assms that
    by (simp add: Initialize_def prog_defs fread_def fseek_set_def Let_def)
  have ctor: "BinaryChunkDeserializer_helper mem ndebug filename traceLevel rename disk =
            (Throws LogicError,
             (BinaryChunkDeserializer_filename filename)
               \<lparr>m_traceLevel := traceLevel, m_file := Some \<lparr>content = disk, pos = 8\<rparr>\<rparr>)"
    using init [of "(BinaryChunkDeserializer_filename filename)\<lparr>m_traceLevel := traceLevel\<rparr>"]
    by (simp add: BinaryChunkDeserializer_helper_def SetTraceLevel_def andThen_def modify_def
        BinaryChunkDeserializer_filename_def)
  show ?thesis using init ctor by (simp add: BinaryChunkDeserializer_filename_def)
qed

theorem C5_witness:
  "8 \<le> length file_version2 \<and> le_word (take 8 file_version2) = (2 :: int64_t)
   \<and> BinaryChunkDeserializer_helper plenty False ''data.bin'' 0 Map.empty file_version2 =
        (Throws LogicError,
         (BinaryChunkDeserializer_filename ''data.bin'')
           \<lparr>m_traceLevel := 0, m_file := Some \<lparr>content = file_version2, pos = 8\<rparr>\<rparr>)
   \<and> m_offsetsTable (snd (BinaryChunkDeserializer_helper plenty False ''data.bin'' 0 Map.empty file_version2)) = None"
proof -
  have l: "8 \<le> length file_version2" by (simp add: file_version2_def file_one_chunk_def)
  have v: "le_word (take 8 file_version2) = (2 :: int64_t)"
    by (simp add: file_version2_def file_one_chunk_def le_word_def)
  have ne: "le_word (take 8 file_version2) \<noteq> (1 :: int64_t)" using v by simp
  note th = C5_version_mismatch [OF l ne, of "BinaryChunkDeserializer_filename ''data.bin''" plenty False
      Map.empty "''data.bin''" 0]
  from th have a: "BinaryChunkDeserializer_helper plenty False ''data.bin'' 0 Map.empty file_version2 =
        (Throws LogicError,
         (BinaryChunkDeserializer_filename ''data.bin'')
           \<lparr>m_traceLevel := 0, m_file := Some \<lparr>content = file_version2, pos = 8\<rparr>\<rparr>)"
    by blast
  from th have b: "m_offsetsTable (snd (BinaryChunkDeserializer_helper plenty False ''data.bin'' 0 Map.empty file_version2)) = None"
    by blast
  show ?thesis using l v a b by blast
qed

section \<open>Operations before initialization\<close>

text \<open>
  Claim C6 says that every operation other than \<open>Initialize\<close> fails with a
  \<open>NotInitialized\<close> error on an uninitialized store. No operation raises such an error:
  on the object the private constructor builds, \<open>GetChunk(0)\<close> dereferences the empty
  \<open>m_offsetsTable\<close>.
\<close>

theorem C6_counterexample:
  "m_offsetsTable (BinaryChunkDeserializer_filename ''data.bin'') = None
   \<and> GetChunk plenty 0 (BinaryChunkDeserializer_filename ''data.bin'')
       = (Undefined, BinaryChunkDeserializer_filename ''data.bin'')"
  by (simp add: GetChunk_null_table BinaryChunkDeserializer_filename_def)

text \<open>
  Claim C6, amended: on a store whose offsets table is not loaded no operation raises a
  \<open>NotInitialized\<close> error. \<open>GetChunkDescriptions\<close> fails its \<open>assert\<close> when asserts are
  compiled in; \<open>GetChunk\<close> and \<open>GetSequencesForChunk\<close> dereference the empty
  \<open>m_offsetsTable\<close> (undefined behaviour) and leave the object and the caller's vector as
  they were. The public constructor runs \<open>Initialize\<close>, so an object it has built is
  initialized.
\<close>

theorem C6_uninitialized_operations:
  assumes "m_offsetsTable s = None"
  shows "GetChunkDescriptions False s = (AssertFailed, s)
       \<and> GetChunk mem chunkId s = (Undefined, s)
       \<and> GetSequencesForChunk mem GetSequence chunkId result s = ((Undefined, result), s)
       \<and> (\<forall>s'. BinaryChunkDeserializer_helper mem ndebug filename traceLevel rename disk = (Returns (), s')
              \<longrightarrow> Initialized s')"
proof (intro conjI allI impI)
  show "GetChunkDescriptions False s = (AssertFailed, s)"
    using assms by (simp add: GetChunkDescriptions_def prog_defs)
  show "GetChunk mem chunkId s = (Undefined, s)" using assms by (rule GetChunk_null_table)
  show "GetSequencesForChunk mem GetSequence chunkId result s = ((Undefined, result), s)"
    using assms by (rule GetSequencesForChunk_null_table)
next
  fix s'
  assume "BinaryChunkDeserializer_helper mem ndebug filename traceLevel rename disk = (Returns (), s')"
  then have "Initialize mem ndebug rename disk
      ((BinaryChunkDeserializer_filename filename)\<lparr>m_traceLevel := traceLevel\<rparr>) = (Returns (), s')"
    by (simp add: BinaryChunkDeserializer_helper_def SetTraceLevel_def andThen_def modify_def)
  then show "Initialized s'" using Initialize_Initialized by blast
qed

theorem C6_witness:
  "m_offsetsTable (BinaryChunkDeserializer_filename ''data.bin'') = None
   \<and> GetChunkDescriptions False (BinaryChunkDeserializer_filename ''data.bin'')
       = (AssertFailed, BinaryChunkDeserializer_filename ''data.bin'')
   \<and> GetSequencesForChunk plenty (\<lambda>chunk id. Returns []) 0 [] (BinaryChunkDeserializer_filename ''data.bin'')
       = ((Undefined, []), BinaryChunkDeserializer_filename ''data.bin'')
   \<and> Initialized store_one_chunk"
proof -
  have n: "m_offsetsTable (BinaryChunkDeserializer_filename ''data.bin'') = None"
    by (simp add: BinaryChunkDeserializer_filename_def)
  show ?thesis
    using C6_uninitialized_operations [OF n, of plenty 0 "\<lambda>chunk id. Returns []" "[]" False "''data.bin''" 0 Map.empty file_one_chunk]
      n one_chunk_ctor by simp
qed

section \<open>Chunk descriptions\<close>

text \<open>
  Claim C7: on an initialized store over an \<open>N\<close>-chunk file, \<open>GetChunkDescriptions\<close>
  returns exactly \<open>N\<close> descriptions in chunk-id order; description \<open>i\<close> is
  \<open>(i, GetNumSamples(i), GetNumSequences(i))\<close>, read from the offsets table in memory; the
  file handle and every other member of the object are as before.
\<close>

theorem C7_GetChunkDescriptions:
  assumes init: "Initialized s" and nb: "m_numBatches s = Some N" and tb: "m_offsetsTable s = Some t"
  shows "\<exists>ds. GetChunkDescriptions ndebug s = (Returns ds, s) \<and> length ds = unat N
           \<and> (\<forall>i<unat N. \<exists>nsamples nsequences.
                  GetNumSamples t (of_nat i) = Some nsamples
                \<and> GetNumSequences t (of_nat i) = Some nsequences
                \<and> ds ! i = ChunkDescription (of_nat i) nsamples nsequences)"
proof -
  let ?ds = "map (\<lambda>i. ChunkDescription (of_nat i) (numSamples (m_diskOffsetsTable t ! i))
                                   (numSequences (m_diskOffsetsTable t ! i))) [0..<unat N]"
  have run: "GetChunkDescriptions ndebug s = (Returns ?ds, s)"
    using init nb tb by (rule GetChunkDescriptions_Initialized)
  have each: "\<exists>nsamples nsequences.
                  GetNumSamples t (of_nat i) = Some nsamples
                \<and> GetNumSequences t (of_nat i) = Some nsequences
                \<and> ?ds ! i = ChunkDescription (of_nat i) nsamples nsequences" if i: "i < unat N" for i
  proof -
    have "unat N < 2 ^ 64" using unsigned_less [of N] by simp
    then have u: "unat (of_nat i :: int64_t) = i"
      using i by (simp add: unsigned_of_nat take_bit_nat_eq_self)
    then have lt: "(of_nat i :: int64_t) < N" using i by (simp add: word_less_nat_alt)
    note acc = Initialized_accessors [OF init nb tb lt]
    show ?thesis using acc(2) acc(3) u i by simp
  qed
  show ?thesis
    using run each by (intro exI [of _ ?ds]) simp
qed

theorem C7_witness:
  "Initialized store_one_chunk
   \<and> GetChunkDescriptions False store_one_chunk = (Returns [ChunkDescription 0 1 1], store_one_chunk)"
proof -
  have nb: "m_numBatches store_one_chunk = Some 1" by (simp add: store_one_chunk_def)
  have tb: "m_offsetsTable store_one_chunk = Some \<lparr>OffsetsTable.m_numBatches = 1,
         m_diskOffsetsTable = [\<lparr>offset = 0, numSequences = 1, numSamples = 1\<rparr>,
                               \<lparr>offset = 57, numSequences = 0, numSamples = 0\<rparr>],
         m_startIndex = [0]\<rparr>"
    by (simp add: store_one_chunk_def)
  from C7_GetChunkDescriptions [OF one_chunk_Initialized nb tb, of False] obtain ds where
    run: "GetChunkDescriptions False store_one_chunk = (Returns ds, store_one_chunk)"
    and len: "length ds = unat (1 :: int64_t)"
    and each: "\<forall>i<unat (1 :: int64_t). \<exists>nsamples nsequences.
        GetNumSamples \<lparr>OffsetsTable.m_numBatches = 1,
         m_diskOffsetsTable = [\<lparr>offset = 0, numSequences = 1, numSamples = 1\<rparr>,
                               \<lparr>offset = 57, numSequences = 0, numSamples = 0\<rparr>],
         m_startIndex = [0]\<rparr> (of_nat i) = Some nsamples
      \<and> GetNumSequences \<lparr>OffsetsTable.m_numBatches = 1,
         m_diskOffsetsTable = [\<lparr>offset = 0, numSequences = 1, numSamples = 1\<rparr>,
                               \<lparr>offset = 57, numSequences = 0, numSamples = 0\<rparr>],
         m_startIndex = [0]\<rparr> (of_nat i) = Some nsequences
      \<and> ds ! i = ChunkDescription (of_nat i) nsamples nsequences"
    by blast
  from each have "ds ! 0 = ChunkDescription 0 1 1"
    by (auto simp: GetNumSamples_def GetNumSequences_def)
  moreover from len have "length ds = 1" by simp
  ultimately have "ds = [ChunkDescription 0 1 1]"
    by (cases ds) auto
  then show ?thesis using run one_chunk_Initialized by simp
qed

section \<open>Sequence descriptions\<close>




text \<open>
  Claim C10 says that the chunk's \<open>numSequences\<close> new descriptions follow the entries of
  every non-empty vector passed in. The entries that were there do stay, but on the file
  whose offset record holds 100 the call throws \<open>std::bad_alloc\<close>, whatever the allocator
  grants, and nothing follows them, although the chunk has one sequence.
\<close>

theorem C10_counterexample:
  "Initialized store_offset_past_end
   \<and> m_offsetsTable store_offset_past_end = Some table_offset_past_end
   \<and> GetNumSequences table_offset_past_end 0 = Some 1
   \<and> (\<forall>mem. fst (GetSequencesForChunk mem (\<lambda>chunk id. Returns [\<lparr>m_numberOfSamples = 1\<rparr>]) 0
                     [SequenceDescription 7 2 5 True (7, 0)] store_offset_past_end)
                = (Throws std_bad_alloc, [SequenceDescription 7 2 5 True (7, 0)]))"
proof -
  have "Initialized store_offset_past_end
      \<and> m_offsetsTable store_offset_past_end = Some table_offset_past_end
      \<and> GetNumSequences table_offset_past_end 0 = Some 1"
    by (simp add: Initialized_def store_offset_past_end_def table_offset_past_end_def GetNumSequences_def
        word_sle_eq)
  then show ?thesis using offset_past_end_never_granted by simp
qed

text \<open>
  Claim C10, amended: \<open>GetSequencesForChunk\<close> appends to the caller's vector without
  clearing it. However the call ends, the entries that were there are still there, in
  front; and for a valid \<open>chunkId\<close> whose count is not negative, for which the allocator
  grants the capacity that \<open>reserve\<close> asks for and the buffer of the chunk, and whose
  sequences decode, the call returns and the \<open>numSequences[chunkId]\<close> descriptions of the
  chunk's sequences follow them, in order.
\<close>

theorem C10_GetSequencesForChunk_appends:
  "(\<exists>news. snd (fst (GetSequencesForChunk mem GetSequence chunkId result s)) = result @ news)
   \<and> (Initialized s \<and> m_numBatches s = Some N \<and> chunkId < N \<and> m_offsetsTable s = Some t
        \<and> m_file s = Some f
        \<and> GetStartIndex t chunkId = Some startId \<and> GetNumSequences t chunkId = Some n
        \<and> GetOffset t chunkId = Some off \<and> GetChunkSize t chunkId = Some sz
        \<and> 0 \<le>s n \<and> grants_capacity mem (unat n) \<and> grants mem (unat sz)
        \<and> (\<forall>k<nat (sint n).
              GetSequence
                (BinaryDataChunk chunkId startId n
                   (take (unat sz) (drop (pos (fseek_set f (m_dataStart s + off))) (content f))
                    @ replicate (unat sz
                        - length (take (unat sz) (drop (pos (fseek_set f (m_dataStart s + off))) (content f)))) 0)
                   (m_deserializers s))
                (startId + of_nat k) = Returns (temp k))
      \<longrightarrow> fst (GetSequencesForChunk mem GetSequence chunkId result s) =
            (Returns (), result @ map (\<lambda>k. SequenceDescription (startId + of_nat k)
                                   (Max (insert 0 (m_numberOfSamples ` set (temp k))))
                                   chunkId True (startId + of_nat k, 0)) [0..<nat (sint n)])
          \<and> length (snd (fst (GetSequencesForChunk mem GetSequence chunkId result s)))
            = length result + nat (sint n))"
proof (intro conjI impI)
  show "\<exists>news. snd (fst (GetSequencesForChunk mem GetSequence chunkId result s)) = result @ news"
    by (rule GetSequencesForChunk_prefix)
next
  let ?chunk = "BinaryDataChunk chunkId startId n
                   (take (unat sz) (drop (pos (fseek_set f (m_dataStart s + off))) (content f))
                    @ replicate (unat sz
                        - length (take (unat sz) (drop (pos (fseek_set f (m_dataStart s + off))) (content f)))) 0)
                   (m_deserializers s)"
  assume a: "Initialized s \<and> m_numBatches s = Some N \<and> chunkId < N \<and> m_offsetsTable s = Some t
        \<and> m_file s = Some f
        \<and> GetStartIndex t chunkId = Some startId \<and> GetNumSequences t chunkId = Some n
        \<and> GetOffset t chunkId = Some off \<and> GetChunkSize t chunkId = Some sz
        \<and> 0 \<le>s n \<and> grants_capacity mem (unat n) \<and> grants mem (unat sz)
        \<and> (\<forall>k<nat (sint n). GetSequence ?chunk (startId + of_nat k) = Returns (temp k))"
  then have tb: "m_offsetsTable s = Some t" and mf: "m_file s = Some f"
    and si: "GetStartIndex t chunkId = Some startId" and ns: "GetNumSequences t chunkId = Some n"
    and o: "GetOffset t chunkId = Some off" and c: "GetChunkSize t chunkId = Some sz"
    and nn: "0 \<le>s n" and cap: "grants_capacity mem (unat n)" and gr: "grants mem (unat sz)"
    and dec: "\<forall>k<nat (sint n). GetSequence ?chunk (startId + of_nat k) = Returns (temp k)"
    by blast+
  note gc = GetChunk_valid [OF tb mf o c si ns gr]
  have run: "fst (GetSequencesForChunk mem GetSequence chunkId result s) =
            (Returns (), result @ map (\<lambda>k. SequenceDescription (startId + of_nat k)
                                   (Max (insert 0 (m_numberOfSamples ` set (temp k))))
                                   chunkId True (startId + of_nat k, 0)) [0..<nat (sint n)])"
    using GetSequencesForChunk_Returns [where g = GetSequence and temp = temp and result = result,
        OF tb si ns nn cap gc dec]
    by (simp only: max_numSamples_Max fst_conv)
  show "fst (GetSequencesForChunk mem GetSequence chunkId result s) =
            (Returns (), result @ map (\<lambda>k. SequenceDescription (startId + of_nat k)
                                   (Max (insert 0 (m_numberOfSamples ` set (temp k))))
                                   chunkId True (startId + of_nat k, 0)) [0..<nat (sint n)])"
    by (rule run)
  show "length (snd (fst (GetSequencesForChunk mem GetSequence chunkId result s)))
            = length result + nat (sint n)"
    by (simp only: run snd_conv length_append length_map length_upt diff_zero)
qed

theorem C10_witness:
  "Initialized store_one_chunk \<and> (0 :: size_t) < 1
   \<and> GetNumSequences table_one_chunk 0 = Some 1 \<and> GetChunkSize table_one_chunk 0 = Some 57
   \<and> (0 :: int32_t) \<le>s 1 \<and> grants_capacity plenty 1 \<and> grants plenty 57
   \<and> fst (GetSequencesForChunk plenty (\<lambda>chunk id. Returns [\<lparr>m_numberOfSamples = 3\<rparr>, \<lparr>m_numberOfSamples = 2\<rparr>]) 0
            [SequenceDescription 7 2 5 True (7, 0)] store_one_chunk)
       = (Returns (), [SequenceDescription 7 2 5 True (7, 0), SequenceDescription 0 3 0 True (0, 0)])"
proof -
  let ?g = "\<lambda>(chunk :: BinaryDataChunk) (id :: size_t).
              Returns [\<lparr>m_numberOfSamples = 3\<rparr>, \<lparr>m_numberOfSamples = 2\<rparr>]"
  let ?f = "\<lparr>content = file_one_chunk, pos = 57\<rparr>"
  have nb: "m_numBatches store_one_chunk = Some 1" by (simp add: store_one_chunk_def)
  have tb: "m_offsetsTable store_one_chunk = Some table_one_chunk"
    by (simp add: store_one_chunk_def table_one_chunk_def)
  have mf: "m_file store_one_chunk = Some ?f" by (simp add: store_one_chunk_def)
  have lt: "(0 :: size_t) < 1" by simp
  have si: "GetStartIndex table_one_chunk 0 = Some 0" by (simp add: GetStartIndex_def table_one_chunk_def)
  have o: "GetOffset table_one_chunk 0 = Some 0" by (simp add: GetOffset_def table_one_chunk_def)
  have facts: "GetNumSequences table_one_chunk 0 = Some 1 \<and> GetChunkSize table_one_chunk 0 = Some 57
      \<and> (0 :: int32_t) \<le>s 1 \<and> grants_capacity plenty 1 \<and> grants plenty 57"
    by (simp add: GetNumSequences_def GetChunkSize_def table_one_chunk_def word_sle_eq grants_def plenty_def)
  have "fst (GetSequencesForChunk plenty ?g 0 [SequenceDescription 7 2 5 True (7, 0)] store_one_chunk) =
      (Returns (), [SequenceDescription 7 2 5 True (7, 0)]
         @ map (\<lambda>k. SequenceDescription (0 + of_nat k)
                  (Max (insert 0 (m_numberOfSamples ` set [\<lparr>m_numberOfSamples = 3\<rparr>, \<lparr>m_numberOfSamples = 2\<rparr>])))
                  0 True (0 + of_nat k, 0)) [0..<nat (sint (1 :: int32_t))])"
    using C10_GetSequencesForChunk_appends [where mem = plenty and GetSequence = ?g and chunkId = 0
        and result = "[SequenceDescription 7 2 5 True (7, 0)]" and s = store_one_chunk and N = 1
        and t = table_one_chunk and f = ?f and startId = 0 and n = 1 and off = 0 and sz = 57
        and temp = "\<lambda>k. [\<lparr>m_numberOfSamples = 3\<rparr>, \<lparr>m_numberOfSamples = 2\<rparr>]"]
      one_chunk_Initialized nb tb mf lt si o facts by simp
  then have "fst (GetSequencesForChunk plenty ?g 0 [SequenceDescription 7 2 5 True (7, 0)] store_one_chunk) =
      (Returns (), [SequenceDescription 7 2 5 True (7, 0), SequenceDescription 0 3 0 True (0, 0)])"
    by simp
  then show ?thesis using one_chunk_Initialized lt facts by simp
qed

section \<open>Monotone offsets and start indices\<close>

text \<open>
  Claim C9 says that for a file whose offset records are written in increasing order,
  \<open>GetOffset(i+1) \<ge> GetOffset(i)\<close> for every loaded \<open>i\<close> and \<open>GetStartIndex\<close> is monotone.
  The order of the records on disk does not give that. In the first file the only record
  has offset 100 and the file has 57 bytes: the synthesized last record gets offset 57,
  below the offset before it, and the chunk size wraps around. In the second file the
  offsets are 0, 4 and 8 and the second sequence count is -1 (an \<open>int32_t\<close>): the start
  indices are 0, 0 and -1.
\<close>

theorem C9_counterexample:
  "(\<exists>s. BinaryChunkDeserializer_helper plenty False ''data.bin'' 0 Map.empty file_offset_past_end = (Returns (), s)
       \<and> m_offsetsTable s = Some table_offset_past_end)
   \<and> GetOffset table_offset_past_end 0 = Some 100 \<and> GetOffset table_offset_past_end 1 = Some 57
   \<and> \<not> ((100 :: int64_t) \<le>s 57)
   \<and> GetChunkSize table_offset_past_end 0 = Some (- 43)
   \<and> (\<exists>s. BinaryChunkDeserializer_helper plenty False ''data.bin'' 0 Map.empty file_negative_count = (Returns (), s)
       \<and> m_offsetsTable s = Some table_negative_count)
   \<and> GetOffset table_negative_count 0 = Some 0 \<and> GetOffset table_negative_count 1 = Some 4
   \<and> GetOffset table_negative_count 2 = Some 8
   \<and> GetStartIndex table_negative_count 1 = Some 0 \<and> GetStartIndex table_negative_count 2 = Some (- 1)
   \<and> \<not> ((0 :: int64_t) \<le>s - 1)"
proof -
  have a: "\<exists>s. BinaryChunkDeserializer_helper plenty False ''data.bin'' 0 Map.empty file_offset_past_end = (Returns (), s)
       \<and> m_offsetsTable s = Some table_offset_past_end"
    using offset_past_end_ctor by (simp add: store_offset_past_end_def)
  have b: "\<exists>s. BinaryChunkDeserializer_helper plenty False ''data.bin'' 0 Map.empty file_negative_count = (Returns (), s)
       \<and> m_offsetsTable s = Some table_negative_count"
    using negative_count_ctor by blast
  have c: "GetOffset table_offset_past_end 0 = Some 100 \<and> GetOffset table_offset_past_end 1 = Some 57
       \<and> \<not> ((100 :: int64_t) \<le>s 57) \<and> GetChunkSize table_offset_past_end 0 = Some (- 43)"
    by (simp add: GetOffset_def GetChunkSize_def table_offset_past_end_def word_sle_eq)
  have d: "GetOffset table_negative_count 0 = Some 0 \<and> GetOffset table_negative_count 1 = Some 4
       \<and> GetOffset table_negative_count 2 = Some 8
       \<and> GetStartIndex table_negative_count 1 = Some 0 \<and> GetStartIndex table_negative_count 2 = Some (- 1)
       \<and> \<not> ((0 :: int64_t) \<le>s - 1)"
    by (simp add: GetOffset_def GetStartIndex_def table_negative_count_def word_sle_eq)
  show ?thesis using a b c d by blast
qed

text \<open>
  Claim C9, amended: let \<open>Initialize\<close> load the table from a file of fewer than \<open>2^63\<close>
  bytes whose \<open>N\<close> offset records are in non-decreasing order, the last of them not
  above the size of the file, and whose sequence counts are not negative and add up to
  less than \<open>2^63\<close>. Then for every loaded index \<open>i < N\<close>,
  \<open>GetOffset(i+1) \<ge> GetOffset(i)\<close> and \<open>GetChunkSize(i)\<close> is their difference, which is not
  negative; \<open>GetStartIndex\<close> is monotonically non-decreasing; and
  \<open>GetChunkDescriptions\<close>, \<open>GetChunk\<close> and \<open>GetSequencesForChunk\<close> leave the table as it
  was loaded, whatever the allocator grants them.
\<close>

theorem C9_offsets_table_monotone:
  assumes run: "Initialize mem ndebug rename disk s0 = (Returns (), s)"
    and small: "length disk < 2 ^ 63"
    and nb: "m_numBatches s = Some N" and tb: "m_offsetsTable s = Some t"
    and ordered: "\<forall>i. Suc i < unat N \<longrightarrow>
        offset (disk_records disk (m_offsetStart s) N ! i)
          \<le>s offset (disk_records disk (m_offsetStart s) N ! Suc i)"
    and inside: "0 < unat N \<longrightarrow>
        sint (offset (disk_records disk (m_offsetStart s) N ! (unat N - 1))) \<le> int (length disk)"
    and counts: "\<forall>r\<in>set (disk_records disk (m_offsetStart s) N). 0 \<le>s numSequences r"
    and total: "sum_list (map (\<lambda>r. nat (sint (numSequences r))) (disk_records disk (m_offsetStart s) N))
                  < 2 ^ 63"
  shows "(\<forall>i<unat N. \<exists>a b sz.
             GetOffset t (of_nat i) = Some a \<and> GetOffset t (of_nat i + 1) = Some b \<and> a \<le>s b
           \<and> GetChunkSize t (of_nat i) = Some sz \<and> int (unat sz) = sint b - sint a)
       \<and> (\<forall>i j. i \<le> j \<and> j < unat N \<longrightarrow>
             (\<exists>a b. GetStartIndex t (of_nat i) = Some a \<and> GetStartIndex t (of_nat j) = Some b \<and> a \<le>s b))
       \<and> m_offsetsTable (snd (GetChunkDescriptions ndebug' s)) = Some t
       \<and> m_offsetsTable (snd (GetChunk mem' chunkId s)) = Some t
       \<and> m_offsetsTable (snd (GetSequencesForChunk mem' GetSequence chunkId result s)) = Some t"
proof -
  let ?recs = "disk_records disk (m_offsetStart s) N"
  let ?final = "\<lparr>offset = of_nat (length disk), numSequences = 0, numSamples = 0\<rparr>"
  from Initialize_table [OF run small] nb tb have
    nn: "0 \<le>s N" and len: "length ?recs = unat N"
    and tbl: "m_diskOffsetsTable t = ?recs @ [?final]"
    and new: "OffsetsTable_new N (?recs @ [?final]) = Returns t"
    by auto
  have si: "m_startIndex t = (if N = 0 then [] else 0 # starts 0 (tl ?recs))"
    using loaded_start_index [OF new len] .
  have N64: "unat N < 2 ^ 64" using unsigned_less [of N] by simp
  have N63: "unat N < 2 ^ 63" using nn by (rule unat_nonneg_bound)
  have idx: "unat (of_nat i :: size_t) = i" if "i < unat N" for i
    using that N64 by (simp add: unsigned_of_nat take_bit_nat_eq_self)
  have idx1: "unat (of_nat i + 1 :: size_t) = Suc i" if "i < unat N" for i
  proof -
    have "i + 1 < 2 ^ 64" using that N63 by simp
    then show ?thesis using idx [OF that] by (simp add: unat_word_ariths)
  qed
  have offsets: "\<exists>a b sz.
             GetOffset t (of_nat i) = Some a \<and> GetOffset t (of_nat i + 1) = Some b \<and> a \<le>s b
           \<and> GetChunkSize t (of_nat i) = Some sz \<and> int (unat sz) = sint b - sint a"
    if i: "i < unat N" for i
  proof -
    let ?a = "offset ((?recs @ [?final]) ! i)"
    let ?b = "offset ((?recs @ [?final]) ! Suc i)"
    have ga: "GetOffset t (of_nat i) = Some ?a"
      using i len tbl idx [OF i] by (simp add: GetOffset_def)
    have gb: "GetOffset t (of_nat i + 1) = Some ?b"
      using i len tbl idx1 [OF i] by (simp add: GetOffset_def)
    have gs: "GetChunkSize t (of_nat i) = Some (?b - ?a)"
      using i len tbl idx [OF i] idx1 [OF i] by (simp add: GetChunkSize_def)
    have ai: "?a = offset (?recs ! i)" using i len by (simp add: nth_append)
    have le: "?a \<le>s ?b"
    proof (cases "Suc i < unat N")
      case True
      then have "?b = offset (?recs ! Suc i)" using len by (simp add: nth_append)
      then show ?thesis using ordered True ai by simp
    next
      case False
      then have last: "Suc i = unat N" using i by simp
      then have "?b = of_nat (length disk)" using len by (simp add: nth_append)
      then have "sint ?b = int (length disk)" using small by (simp add: sint_of_nat_small)
      moreover have "sint ?a \<le> int (length disk)"
      proof -
        have "unat N - 1 = i" using last by simp
        then show ?thesis using inside i ai by simp
      qed
      ultimately show ?thesis by (simp only: word_sle_eq)
    qed
    have "int (unat (?b - ?a)) = sint ?b - sint ?a"
      using uint_diff_sle [OF le] by (simp only: uint_nat)
    then show ?thesis using ga gb gs le by blast
  qed
  have mono: "\<exists>a b. GetStartIndex t (of_nat i) = Some a \<and> GetStartIndex t (of_nat j) = Some b \<and> a \<le>s b"
    if ij: "i \<le> j \<and> j < unat N" for i j
  proof -
    have j: "j < unat N" and i: "i < unat N" using ij by simp_all
    then have N0: "N \<noteq> 0" by auto
    then have six: "m_startIndex t = 0 # starts 0 (tl ?recs)" using si by simp
    have lsi: "length (m_startIndex t) = unat N"
      using six len N0 j by (simp add: length_starts)
    have gi: "GetStartIndex t (of_nat i) = Some ((0 # starts 0 (tl ?recs)) ! i)"
      using i lsi six idx [OF i] by (simp add: GetStartIndex_def)
    have gj: "GetStartIndex t (of_nat j) = Some ((0 # starts 0 (tl ?recs)) ! j)"
      using j lsi six idx [OF j] by (simp add: GetStartIndex_def)
    have c: "\<forall>r\<in>set (tl ?recs). 0 \<le>s numSequences r"
    proof (cases ?recs)
      case Nil
      then show ?thesis by simp
    next
      case (Cons r rs)
      then show ?thesis using counts by simp
    qed
    have "sum_list (map (\<lambda>r. nat (sint (numSequences r))) (tl ?recs))
         \<le> sum_list (map (\<lambda>r. nat (sint (numSequences r))) ?recs)"
      by (rule sum_list_tl_le)
    then have tt: "sum_list (map (\<lambda>r. nat (sint (numSequences r))) (tl ?recs)) < 2 ^ 63"
      using total by simp
    have jl: "j < Suc (length (tl ?recs))" using j len by simp
    have "(0 # starts 0 (tl ?recs)) ! i \<le>s (0 # starts 0 (tl ?recs)) ! j"
      using starts_mono [OF c tt _ jl] ij by simp
    then show ?thesis using gi gj by blast
  qed
  have keep: "m_offsetsTable (snd (GetChunkDescriptions ndebug' s)) = Some t
       \<and> m_offsetsTable (snd (GetChunk mem' chunkId s)) = Some t
       \<and> m_offsetsTable (snd (GetSequencesForChunk mem' GetSequence chunkId result s)) = Some t"
    using tb by (simp add: GetChunkDescriptions_keeps_state GetChunk_keeps_table
        GetSequencesForChunk_keeps_table)
  show ?thesis using offsets mono keep by blast
qed


theorem C9_witness:
  "Initialize plenty False Map.empty file_two_chunks ((BinaryChunkDeserializer_filename ''data.bin'')\<lparr>m_traceLevel := 0\<rparr>)
     = (Returns (), store_two_chunks)
   \<and> length file_two_chunks = 81
   \<and> disk_records file_two_chunks 37 2 = [\<lparr>offset = 0, numSequences = 2, numSamples = 2\<rparr>,
                                            \<lparr>offset = 8, numSequences = 1, numSamples = 1\<rparr>]
   \<and> (\<exists>a b sz. GetOffset table_two_chunks 1 = Some a \<and> GetOffset table_two_chunks 2 = Some b \<and> a \<le>s b
          \<and> GetChunkSize table_two_chunks 1 = Some sz \<and> int (unat sz) = sint b - sint a)
   \<and> (\<exists>a b. GetStartIndex table_two_chunks 0 = Some a \<and> GetStartIndex table_two_chunks 1 = Some b \<and> a \<le>s b)
   \<and> m_offsetsTable (snd (GetChunk plenty 0 store_two_chunks)) = Some table_two_chunks"
proof -
  have run: "Initialize plenty False Map.empty file_two_chunks
      ((BinaryChunkDeserializer_filename ''data.bin'')\<lparr>m_traceLevel := 0\<rparr>) = (Returns (), store_two_chunks)"
    using two_chunks_ctor
    by (simp add: BinaryChunkDeserializer_helper_def SetTraceLevel_def andThen_def modify_def)
  have l: "length file_two_chunks = 81" by (simp add: file_two_chunks_def file_truncated_def)
  then have small: "length file_two_chunks < 2 ^ 63" by simp
  have nb: "m_numBatches store_two_chunks = Some 2" by (simp add: store_two_chunks_def)
  have tb: "m_offsetsTable store_two_chunks = Some table_two_chunks" by (simp add: store_two_chunks_def)
  have os: "m_offsetStart store_two_chunks = 37" by (simp add: store_two_chunks_def)
  note recs = two_chunks_records
  have ordered: "\<forall>i. Suc i < unat (2 :: int64_t) \<longrightarrow>
        offset (disk_records file_two_chunks (m_offsetStart store_two_chunks) 2 ! i)
          \<le>s offset (disk_records file_two_chunks (m_offsetStart store_two_chunks) 2 ! Suc i)"
    by (simp add: os recs word_sle_eq)
  have inside: "0 < unat (2 :: int64_t) \<longrightarrow>
        sint (offset (disk_records file_two_chunks (m_offsetStart store_two_chunks) 2 ! (unat (2 :: int64_t) - 1)))
          \<le> int (length file_two_chunks)"
    by (simp add: os recs l)
  have counts: "\<forall>r\<in>set (disk_records file_two_chunks (m_offsetStart store_two_chunks) 2). 0 \<le>s numSequences r"
    by (simp add: os recs word_sle_eq)
  have total: "sum_list (map (\<lambda>r. nat (sint (numSequences r)))
                  (disk_records file_two_chunks (m_offsetStart store_two_chunks) 2)) < 2 ^ 63"
    by (simp add: os recs)
  note th = C9_offsets_table_monotone [OF run small nb tb ordered inside counts total,
      where ndebug' = False and mem' = plenty and chunkId = 0
        and GetSequence = "\<lambda>chunk id. Returns []" and result = "[]"]
  from th have offs: "\<forall>i<unat (2 :: int64_t). \<exists>a b sz.
             GetOffset table_two_chunks (of_nat i) = Some a \<and> GetOffset table_two_chunks (of_nat i + 1) = Some b
           \<and> a \<le>s b \<and> GetChunkSize table_two_chunks (of_nat i) = Some sz \<and> int (unat sz) = sint b - sint a"
    by blast
  from th have mono: "\<forall>i j. i \<le> j \<and> j < unat (2 :: int64_t) \<longrightarrow>
             (\<exists>a b. GetStartIndex table_two_chunks (of_nat i) = Some a
                  \<and> GetStartIndex table_two_chunks (of_nat j) = Some b \<and> a \<le>s b)"
    by blast
  from th have keep: "m_offsetsTable (snd (GetChunk plenty 0 store_two_chunks)) = Some table_two_chunks"
    by blast
  have o1: "\<exists>a b sz. GetOffset table_two_chunks 1 = Some a \<and> GetOffset table_two_chunks 2 = Some b \<and> a \<le>s b
          \<and> GetChunkSize table_two_chunks 1 = Some sz \<and> int (unat sz) = sint b - sint a"
    using offs [rule_format, of 1] by simp
  have m1: "\<exists>a b. GetStartIndex table_two_chunks 0 = Some a \<and> GetStartIndex table_two_chunks 1 = Some b \<and> a \<le>s b"
    using mono [rule_format, of 0 1] by simp
  show ?thesis using run l recs o1 m1 keep by blast
qed


end
